theory Spec2Isabelle
  imports Complex_Main "HOL-Library.Product_Lexorder"
begin

section \<open>Data model\<close>

text \<open>
  The cleanup manager of \<^verbatim>\<open>src/models/cleanup.py\<close> never builds class instances from
  stored data: every operation loads the two JSON collections (cleanup tasks and teams),
  reads and writes the loaded dictionaries key by key, and saves the collections again.
  The dictionaries are the ones written by \<^verbatim>\<open>Report.to_dict\<close>,
  \<^verbatim>\<open>CleanupReport.to_dict\<close> and \<^verbatim>\<open>CleanupTeam.to_dict\<close>, so they carry a fixed set
  of keys; they are modelled as records with one field per key.  Timestamps are the
  strings returned by \<^verbatim>\<open>datetime.now().isoformat()\<close>.  A team's rating is a JSON number
  (default \<^verbatim>\<open>5.0\<close>) and is modelled as a rational.
\<close>

type_synonym timestamp = string

text \<open>The dictionary of \<^verbatim>\<open>Report.to_dict\<close>, embedded in every task.\<close>

record report =
  filename :: string
  latitude :: string
  longitude :: string
  location_name :: string
  score :: int
  analysis :: string
  reporter_name :: string
  reporter_email :: string
  points :: int
  timestamp :: timestamp

text \<open>One result of the scoring collaborator \<^verbatim>\<open>analyze_cleanup_verification\<close>; the key
  \<^verbatim>\<open>score\<close> is read with \<^verbatim>\<open>result.get("score", 0)\<close>.\<close>

record analysis_result =
  result_score :: "int option"
  result_analysis :: string

text \<open>
  The dictionary of \<^verbatim>\<open>CleanupReport.to_dict\<close>.  The last two fields are the keys
  \<^verbatim>\<open>verification_analysis\<close> and \<^verbatim>\<open>cleanup_score\<close> that only the route
  \<^verbatim>\<open>verify_cleanup\<close> adds; they are absent (\<open>None\<close>) until then.
\<close>

record cleanup =
  report_id :: string
  pollution_report :: report
  status :: string
  assigned_team :: "string option"
  assigned_date :: "timestamp option"
  start_date :: "timestamp option"
  completion_date :: "timestamp option"
  cleanup_notes :: string
  verification_photos :: "string list"
  cleanup_points :: int
  created_at :: timestamp
  updated_at :: timestamp
  verification_analysis :: "analysis_result list option"
  cleanup_score :: "rat option"

text \<open>The dictionary of \<^verbatim>\<open>CleanupTeam.to_dict\<close>; the keys \<^verbatim>\<open>status\<close> and
  \<^verbatim>\<open>created_at\<close> are the fields \<open>team_status\<close> and \<open>team_created_at\<close>.\<close>

record team =
  team_id :: string
  name :: string
  leader_email :: string
  members :: "string list"
  team_status :: string
  current_task :: "string option"
  total_cleanups :: int
  total_points :: int
  rating :: rat
  team_created_at :: timestamp
  last_activity :: timestamp

text \<open>
  The persistent state: the two collections of the cleanup manager, and the calls made
  to the rewards ledger (\<^verbatim>\<open>rewards_manager.award_points(email, points, category)\<close>) in
  the order they were made.
\<close>

record store =
  cleanups :: "cleanup list"
  teams :: "team list"
  awards :: "(string \<times> int \<times> string) list"

definition PENDING :: string where "PENDING = ''pending''"
definition IN_PROGRESS :: string where "IN_PROGRESS = ''in_progress''"
definition CLEANED :: string where "CLEANED = ''cleaned''"
definition VERIFIED :: string where "VERIFIED = ''verified''"

text \<open>Python truthiness of a value that is \<^verbatim>\<open>None\<close> or a string.\<close>

definition truthy :: "string option \<Rightarrow> bool" where
  "truthy v = (case v of None \<Rightarrow> False | Some s \<Rightarrow> s \<noteq> [])"

text \<open>
  \<^verbatim>\<open>next((x for x in xs if P(x)), None)\<close> returns a reference to the first matching
  dictionary of the loaded list, and the later assignments mutate that dictionary in
  place.  The model finds the position of the first match and updates the list there.
\<close>

fun find_idx :: "('a \<Rightarrow> bool) \<Rightarrow> 'a list \<Rightarrow> nat option" where
  "find_idx P [] = None"
| "find_idx P (x # xs) = (if P x then Some 0 else map_option Suc (find_idx P xs))"

text \<open>
  \<^verbatim>\<open>max(xs, key=k)\<close> on a non-empty list: the running maximum is replaced only by an
  element with a strictly greater key, so the first maximal element wins.
\<close>

fun py_max_by :: "('a \<Rightarrow> 'k::linorder) \<Rightarrow> 'a \<Rightarrow> 'a list \<Rightarrow> 'a" where
  "py_max_by key best [] = best"
| "py_max_by key best (x # xs) = py_max_by key (if key best < key x then x else best) xs"

text \<open>Decimal rendering of an integer, as an f-string does.\<close>

fun str_nat :: "nat \<Rightarrow> string" where
  "str_nat n =
     (if n < 10 then [''0123456789'' ! n]
      else str_nat (n div 10) @ [''0123456789'' ! (n mod 10)])"

definition str_int :: "int \<Rightarrow> string" where
  "str_int i = (if i < 0 then CHR ''-'' # str_nat (nat (- i)) else str_nat (nat i))"

section \<open>The cleanup manager\<close>

text \<open>
  Every operation takes the readings of the clock it makes: \<open>now k\<close> is the string
  returned by the \<open>k\<close>-th call of \<^verbatim>\<open>datetime.now().isoformat()\<close> on the path taken.
  Identifiers built from the clock and a random number are parameters.
\<close>

text \<open>\<^verbatim>\<open>CleanupReport(report_id, pollution_report).to_dict()\<close>.\<close>

definition new_cleanup :: "(nat \<Rightarrow> timestamp) \<Rightarrow> string \<Rightarrow> report \<Rightarrow> cleanup" where
  "new_cleanup now rid pr =
     \<lparr>report_id = rid, pollution_report = pr, status = PENDING, assigned_team = None,
      assigned_date = None, start_date = None, completion_date = None,
      cleanup_notes = [], verification_photos = [], cleanup_points = 0,
      created_at = now 0, updated_at = now 1,
      verification_analysis = None, cleanup_score = None\<rparr>"

text \<open>\<^verbatim>\<open>CleanupTeam(team_id, name, leader_email, members).to_dict()\<close>; the constructor
  stores \<^verbatim>\<open>members or []\<close>.\<close>

definition new_team ::
  "(nat \<Rightarrow> timestamp) \<Rightarrow> string \<Rightarrow> string \<Rightarrow> string \<Rightarrow> string list \<Rightarrow> team" where
  "new_team now tid nm leader ms =
     \<lparr>team_id = tid, name = nm, leader_email = leader,
      members = (if ms \<noteq> [] then ms else []),
      team_status = ''available'', current_task = None, total_cleanups = 0,
      total_points = 0, rating = 5, team_created_at = now 0, last_activity = now 1\<rparr>"

text \<open>\<^verbatim>\<open>_calculate_cleanup_points\<close>; Python's \<^verbatim>\<open>//\<close> on integers is floor division, as
  \<open>div\<close> on \<open>int\<close>.\<close>

definition calculate_cleanup_points :: "cleanup \<Rightarrow> int" where
  "calculate_cleanup_points c = 25 + score (pollution_report c) div 10"

text \<open>Positions of the teams with \<^verbatim>\<open>t["status"] == "available"\<close>, in list order.\<close>

definition available_teams :: "team list \<Rightarrow> nat list" where
  "available_teams ts = filter (\<lambda>j. team_status (ts ! j) = ''available'') [0..<length ts]"

definition team_key :: "team list \<Rightarrow> nat \<Rightarrow> rat \<times> int" where
  "team_key ts j = (rating (ts ! j), total_cleanups (ts ! j))"

definition auto_assign_team ::
  "(nat \<Rightarrow> timestamp) \<Rightarrow> string \<Rightarrow> store \<Rightarrow> string option \<times> store" where
  "auto_assign_team now rid st =
     (case find_idx (\<lambda>c. report_id c = rid) (cleanups st) of
        None \<Rightarrow> (None, st)
      | Some ci \<Rightarrow>
          (case available_teams (teams st) of
             [] \<Rightarrow> (None, st)
           | j # js \<Rightarrow>
               (let bi = py_max_by (team_key (teams st)) j js;
                    best_team = teams st ! bi;
                    c = (cleanups st ! ci)
                          \<lparr>assigned_team := Some (team_id best_team),
                           assigned_date := Some (now 0),
                           status := IN_PROGRESS,
                           updated_at := now 1\<rparr>;
                    t = best_team
                          \<lparr>team_status := ''busy'',
                           current_task := Some rid,
                           last_activity := now 2\<rparr>
                in (Some (team_id best_team),
                    st\<lparr>cleanups := (cleanups st)[ci := c],
                       teams := (teams st)[bi := t]\<rparr>))))"

definition create_cleanup_report ::
  "(nat \<Rightarrow> timestamp) \<Rightarrow> string \<Rightarrow> report \<Rightarrow> store \<Rightarrow> string \<times> store" where
  "create_cleanup_report now rid pr st =
     (rid, snd (auto_assign_team (\<lambda>k. now (k + 2)) rid
                  (st\<lparr>cleanups := cleanups st @ [new_cleanup now rid pr]\<rparr>)))"

text \<open>\<^verbatim>\<open>create_team\<close>: \<^verbatim>\<open>members\<close> defaults to \<^verbatim>\<open>None\<close>, and
  \<^verbatim>\<open>members or [leader_email]\<close> is passed to the constructor.\<close>

definition create_team ::
  "(nat \<Rightarrow> timestamp) \<Rightarrow> string \<Rightarrow> string \<Rightarrow> string \<Rightarrow> string list option \<Rightarrow> store
     \<Rightarrow> string \<times> store" where
  "create_team now tid nm leader ms st =
     (tid, st\<lparr>teams := teams st @
        [new_team now tid nm leader
           (case ms of None \<Rightarrow> [leader] | Some xs \<Rightarrow> if xs \<noteq> [] then xs else [leader])]\<rparr>)"

text \<open>
  The block ``free up the team'' of \<^verbatim>\<open>update_cleanup_status\<close> (lines 249--256), repeated
  verbatim in \<^verbatim>\<open>submit_cleanup_verification\<close> (lines 295--302): \<open>c\<close> is the task after
  its points were stored, \<open>t_act\<close> the clock reading written to \<^verbatim>\<open>last_activity\<close>.
\<close>

definition free_up_team :: "timestamp \<Rightarrow> cleanup \<Rightarrow> team list \<Rightarrow> team list" where
  "free_up_team t_act c ts =
     (if truthy (assigned_team c) then
        (case find_idx (\<lambda>t. Some (team_id t) = assigned_team c) ts of
           None \<Rightarrow> ts
         | Some ti \<Rightarrow>
             ts[ti := (ts ! ti)
                  \<lparr>team_status := ''available'',
                   current_task := None,
                   total_cleanups := total_cleanups (ts ! ti) + 1,
                   total_points := total_points (ts ! ti) + cleanup_points c,
                   last_activity := t_act\<rparr>])
      else ts)"

text \<open>\<^verbatim>\<open>_award_reporter_points\<close>: the body is \<^verbatim>\<open>pass\<close>.\<close>

definition award_reporter_points :: "string \<Rightarrow> int \<Rightarrow> store \<Rightarrow> store" where
  "award_reporter_points email pts st = st"

text \<open>
  \<^verbatim>\<open>update_cleanup_status(report_id, status, notes, photos)\<close>; \<^verbatim>\<open>photos\<close> defaults to
  \<^verbatim>\<open>None\<close>.  The clock is read for \<^verbatim>\<open>updated_at\<close> (\<open>now 0\<close>), then for
  \<^verbatim>\<open>start_date\<close> or \<^verbatim>\<open>completion_date\<close> (\<open>now 1\<close>), then for the team's
  \<^verbatim>\<open>last_activity\<close> (\<open>now 2\<close>).
\<close>

definition update_cleanup_status ::
  "(nat \<Rightarrow> timestamp) \<Rightarrow> string \<Rightarrow> string \<Rightarrow> string \<Rightarrow> string list option \<Rightarrow> store
     \<Rightarrow> bool \<times> store" where
  "update_cleanup_status now rid new_status notes photos st =
     (case find_idx (\<lambda>c. report_id c = rid) (cleanups st) of
        None \<Rightarrow> (False, st)
      | Some ci \<Rightarrow>
          (let c1 = (cleanups st ! ci)
                      \<lparr>status := new_status, cleanup_notes := notes, updated_at := now 0\<rparr>;
               c2 = (case photos of
                       None \<Rightarrow> c1
                     | Some ps \<Rightarrow>
                         if ps \<noteq> []
                         then c1\<lparr>verification_photos := verification_photos c1 @ ps\<rparr>
                         else c1)
           in if new_status = IN_PROGRESS \<and> \<not> truthy (start_date c2) then
                (True, st\<lparr>cleanups := (cleanups st)[ci := c2\<lparr>start_date := Some (now 1)\<rparr>]\<rparr>)
              else if new_status = CLEANED then
                (let c3 = c2\<lparr>completion_date := Some (now 1),
                             cleanup_points := calculate_cleanup_points c2\<rparr>
                 in (True, st\<lparr>cleanups := (cleanups st)[ci := c3],
                             teams := free_up_team (now 2) c3 (teams st)\<rparr>))
              else if new_status = VERIFIED then
                (True, award_reporter_points (reporter_email (pollution_report c2)) 10
                         (st\<lparr>cleanups := (cleanups st)[ci := c2]\<rparr>))
              else (True, st\<lparr>cleanups := (cleanups st)[ci := c2]\<rparr>)))"

text \<open>The dictionary returned by \<^verbatim>\<open>submit_cleanup_verification\<close>; the keys
  \<^verbatim>\<open>status\<close>, \<^verbatim>\<open>points_awarded\<close> and \<^verbatim>\<open>score\<close> are present on some paths only.\<close>

record verification_response =
  success :: bool
  message :: string
  response_status :: "string option"
  points_awarded :: "int option"
  response_score :: "int option"

definition failed_annotation :: "int \<Rightarrow> string" where
  "failed_annotation sc =
     CHR 0x0A # ''[VERIFICATION FAILED] Score: '' @ str_int sc @
       ''. Cleanup incomplete, task continues.''"

text \<open>
  \<^verbatim>\<open>submit_cleanup_verification(report_id, team_email, notes, verification_photos,
  cleanup_score)\<close>; \<^verbatim>\<open>cleanup_score\<close> is an \<^verbatim>\<open>int\<close> that defaults to \<^verbatim>\<open>None\<close>.
\<close>

definition submit_cleanup_verification ::
  "(nat \<Rightarrow> timestamp) \<Rightarrow> string \<Rightarrow> string \<Rightarrow> string \<Rightarrow> string list \<Rightarrow> int option \<Rightarrow> store
     \<Rightarrow> verification_response \<times> store" where
  "submit_cleanup_verification now rid team_email notes photos cleanup_score_arg st =
     (case find_idx (\<lambda>c. report_id c = rid) (cleanups st) of
        None \<Rightarrow>
          (\<lparr>success = False, message = ''Cleanup report not found'',
            response_status = None, points_awarded = None, response_score = None\<rparr>, st)
      | Some ci \<Rightarrow>
          if truthy (assigned_team (cleanups st ! ci)) \<and>
             (case find_idx (\<lambda>t. Some (team_id t) = assigned_team (cleanups st ! ci)) (teams st) of
                None \<Rightarrow> True
              | Some ti \<Rightarrow> team_email \<notin> set (members (teams st ! ti)))
          then
            (\<lparr>success = False,
              message = ''Unauthorized: You are not assigned to this cleanup task'',
              response_status = None, points_awarded = None, response_score = None\<rparr>, st)
          else
            (let c1 = (cleanups st ! ci)
                        \<lparr>cleanup_notes := notes, verification_photos := photos,
                         updated_at := now 0\<rparr>
             in case cleanup_score_arg of
                  None \<Rightarrow>
                    (\<lparr>success = True, message = ''Verification submitted successfully'',
                      response_status = None, points_awarded = None, response_score = None\<rparr>,
                     st\<lparr>cleanups := (cleanups st)[ci := c1]\<rparr>)
                | Some sc \<Rightarrow>
                    if sc \<le> 30 then
                      (let c2 = c1\<lparr>status := CLEANED, completion_date := Some (now 1),
                                   cleanup_points := calculate_cleanup_points c1\<rparr>
                       in (\<lparr>success = True,
                             message = ''Cleanup verified successfully! Task completed.'',
                             response_status = Some CLEANED,
                             points_awarded = Some (cleanup_points c2),
                             response_score = None\<rparr>,
                           st\<lparr>cleanups := (cleanups st)[ci := c2],
                              teams := free_up_team (now 2) c2 (teams st)\<rparr>))
                    else
                      (let c2 = c1\<lparr>status := IN_PROGRESS,
                                   cleanup_notes := cleanup_notes c1 @ failed_annotation sc\<rparr>
                       in (\<lparr>success = False,
                             message = ''Cleanup verification failed. Task continues.'',
                             response_status = Some IN_PROGRESS,
                             points_awarded = None,
                             response_score = Some sc\<rparr>,
                           st\<lparr>cleanups := (cleanups st)[ci := c2]\<rparr>))))"

section \<open>The route handlers that change tasks and teams\<close>

text \<open>
  The handlers of \<^verbatim>\<open>src/routes/cleanup.py\<close> answer with a flashed message and a
  redirect.  The model keeps the message of every rejection; the two messages of
  \<^verbatim>\<open>verify_cleanup\<close> that print the mean score are the constructors \<open>Accepted\<close> and
  \<open>Needs_work\<close>, the message of a completed assignment or completion is \<open>Done\<close>, and
  \<open>No_response\<close> is the handler falling off its end.  Form fields are taken after
  \<^verbatim>\<open>.strip()\<close>.  Each handler saves the collections as its last step, inside a
  \<^verbatim>\<open>try\<close>; the model covers the runs in which storing the uploads, the scoring
  collaborator and the rewards ledger do not raise (a run in which one raises saves
  neither collection).
\<close>

datatype route_result = Rejected string | Done | Accepted | Needs_work | No_response

text \<open>\<^verbatim>\<open>assign_team\<close> (manual assignment); \<^verbatim>\<open>request.form.get("team_id")\<close> is
  \<^verbatim>\<open>None\<close> or a string.\<close>

definition assign_team ::
  "(nat \<Rightarrow> timestamp) \<Rightarrow> string \<Rightarrow> string option \<Rightarrow> store \<Rightarrow> route_result \<times> store" where
  "assign_team now rid team_id_arg st =
     (if \<not> truthy team_id_arg then (Rejected ''Team selection is required'', st)
      else
        (case find_idx (\<lambda>c. report_id c = rid) (cleanups st) of
           None \<Rightarrow> (Rejected ''Report or team not found'', st)
         | Some ci \<Rightarrow>
             (case find_idx (\<lambda>t. Some (team_id t) = team_id_arg) (teams st) of
                None \<Rightarrow> (Rejected ''Report or team not found'', st)
              | Some ti \<Rightarrow>
                  if team_status (teams st ! ti) \<noteq> ''available''
                  then (Rejected ''Selected team is not available'', st)
                  else
                    (let c = (cleanups st ! ci)
                               \<lparr>assigned_team := team_id_arg,
                                assigned_date := Some (now 0),
                                status := IN_PROGRESS,
                                updated_at := now 1\<rparr>;
                         t = (teams st ! ti)
                               \<lparr>team_status := ''busy'',
                                current_task := Some rid,
                                last_activity := now 2\<rparr>
                     in (Done, st\<lparr>cleanups := (cleanups st)[ci := c],
                                  teams := (teams st)[ti := t]\<rparr>)))))"

text \<open>
  The mean of the per-photo scores, \<^verbatim>\<open>sum(result.get("score", 0) ...) / len(...)\<close>: a
  float in the source, the exact quotient here.  The value written to
  \<^verbatim>\<open>cleanup_score\<close> is therefore the exact mean where the source stores the nearest
  double (\<open>88 / 3\<close> where the source stores \<^verbatim>\<open>29.333333333333332\<close>); the statements below
  read that field only where the mean is a whole number.  The test against 30 has the
  same outcome on both: the division of two Python integers is correctly rounded, and a
  mean of \<open>n\<close> integer scores other than 30 is at least \<open>1 / n\<close> away from 30.
\<close>

definition avg_score :: "analysis_result list \<Rightarrow> rat" where
  "avg_score rs =
     of_int (sum_list (map (\<lambda>r. case result_score r of None \<Rightarrow> 0 | Some s \<Rightarrow> s) rs))
       / of_int (int (length rs))"

text \<open>
  \<^verbatim>\<open>verify_cleanup\<close>, method POST.  \<open>uploads\<close> are the names of the uploaded
  files (an upload without a file has an empty name); \<open>secure_filename\<close> is werkzeug's
  function and \<open>analyze\<close> the scoring collaborator applied to a stored photo, both taken
  as parameters.  On the accepted path the clock is read for \<^verbatim>\<open>completion_date\<close>,
  \<^verbatim>\<open>updated_at\<close> and \<^verbatim>\<open>last_activity\<close>, on the other path for \<^verbatim>\<open>updated_at\<close>.
\<close>

definition verify_cleanup ::
  "(nat \<Rightarrow> timestamp) \<Rightarrow> (string \<Rightarrow> string) \<Rightarrow> (string \<Rightarrow> analysis_result) \<Rightarrow>
     string \<Rightarrow> string \<Rightarrow> string \<Rightarrow> string list \<Rightarrow> store \<Rightarrow> route_result \<times> store" where
  "verify_cleanup now secure_filename analyze rid email notes uploads st =
     (case find_idx (\<lambda>c. report_id c = rid) (cleanups st) of
        None \<Rightarrow> (Rejected ''Cleanup report not found'', st)
      | Some ci \<Rightarrow>
          if \<not> truthy (assigned_team (cleanups st ! ci))
          then (Rejected ''No team assigned to this cleanup'', st)
          else
            (case find_idx (\<lambda>t. Some (team_id t) = assigned_team (cleanups st ! ci)) (teams st) of
               None \<Rightarrow> (Rejected ''Assigned team not found'', st)
             | Some ti \<Rightarrow>
                 if email \<notin> set (members (teams st ! ti))
                 then (Rejected ''Email must be a member of the assigned cleanup team'', st)
                 else if uploads = [] \<or> hd uploads = []
                 then (Rejected ''At least one verification photo is required'', st)
                 else
                   (let photo_paths =
                          map (\<lambda>f. secure_filename (''verification_'' @ rid @ ''_'' @ f))
                            (filter (\<lambda>f. f \<noteq> []) uploads);
                        analysis_results = map analyze photo_paths
                    in if analysis_results = [] then (No_response, st)
                       else if avg_score analysis_results < 30 then
                         (let c = (cleanups st ! ci)
                                    \<lparr>status := CLEANED,
                                     completion_date := Some (now 0),
                                     updated_at := now 1,
                                     verification_photos := photo_paths,
                                     cleanup_notes := notes,
                                     verification_analysis := Some analysis_results,
                                     cleanup_score := Some (avg_score analysis_results)\<rparr>;
                              t = (teams st ! ti)
                                    \<lparr>team_status := ''available'',
                                     current_task := None,
                                     last_activity := now 2,
                                     total_cleanups := total_cleanups (teams st ! ti) + 1\<rparr>
                          in (Accepted,
                              st\<lparr>cleanups := (cleanups st)[ci := c],
                                 teams := (teams st)[ti := t],
                                 awards := awards st @
                                   map (\<lambda>m. (m, 25, ''cleanup'')) (members (teams st ! ti))\<rparr>))
                       else
                         (let c = (cleanups st ! ci)
                                    \<lparr>verification_photos := photo_paths,
                                     cleanup_notes := notes,
                                     verification_analysis := Some analysis_results,
                                     cleanup_score := Some (avg_score analysis_results),
                                     updated_at := now 0\<rparr>
                          in (Needs_work, st\<lparr>cleanups := (cleanups st)[ci := c]\<rparr>)))))"

text \<open>\<^verbatim>\<open>mark_completed\<close> (manual completion by the team leader).\<close>

definition mark_completed ::
  "(nat \<Rightarrow> timestamp) \<Rightarrow> string \<Rightarrow> store \<Rightarrow> route_result \<times> store" where
  "mark_completed now rid st =
     (case find_idx (\<lambda>c. report_id c = rid) (cleanups st) of
        None \<Rightarrow> (Rejected ''Cleanup report not found'', st)
      | Some ci \<Rightarrow>
          if \<not> truthy (assigned_team (cleanups st ! ci))
          then (Rejected ''No team assigned to this cleanup'', st)
          else
            (case find_idx (\<lambda>t. Some (team_id t) = assigned_team (cleanups st ! ci)) (teams st) of
               None \<Rightarrow> (Rejected ''Assigned team not found'', st)
             | Some ti \<Rightarrow>
                 (let c = (cleanups st ! ci)
                            \<lparr>status := CLEANED,
                             completion_date := Some (now 0),
                             updated_at := now 1\<rparr>;
                      t = (teams st ! ti)
                            \<lparr>team_status := ''available'',
                             current_task := None,
                             last_activity := now 2,
                             total_cleanups := total_cleanups (teams st ! ti) + 1\<rparr>
                  in (Done,
                      st\<lparr>cleanups := (cleanups st)[ci := c],
                         teams := (teams st)[ti := t],
                         awards := awards st @
                           map (\<lambda>m. (m, 25, ''cleanup'')) (members (teams st ! ti))\<rparr>))))"

section \<open>Histories of operations\<close>

text \<open>
  The operations that change tasks and teams, with their arguments, and the state
  reached by running a list of them from the empty collections that
  \<^verbatim>\<open>_ensure_files_exist\<close> writes.
\<close>

datatype operation =
    Create_cleanup_report "nat \<Rightarrow> timestamp" string report
  | Auto_assign_team "nat \<Rightarrow> timestamp" string
  | Create_team "nat \<Rightarrow> timestamp" string string string "string list option"
  | Update_cleanup_status "nat \<Rightarrow> timestamp" string string string "string list option"
  | Submit_cleanup_verification "nat \<Rightarrow> timestamp" string string string "string list" "int option"
  | Assign_team "nat \<Rightarrow> timestamp" string "string option"
  | Verify_cleanup "nat \<Rightarrow> timestamp" "string \<Rightarrow> string" "string \<Rightarrow> analysis_result"
      string string string "string list"
  | Mark_completed "nat \<Rightarrow> timestamp" string

fun exec :: "operation \<Rightarrow> store \<Rightarrow> store" where
  "exec (Create_cleanup_report now rid pr) st = snd (create_cleanup_report now rid pr st)"
| "exec (Auto_assign_team now rid) st = snd (auto_assign_team now rid st)"
| "exec (Create_team now tid nm leader ms) st = snd (create_team now tid nm leader ms st)"
| "exec (Update_cleanup_status now rid s notes photos) st =
     snd (update_cleanup_status now rid s notes photos st)"
| "exec (Submit_cleanup_verification now rid email notes photos sc) st =
     snd (submit_cleanup_verification now rid email notes photos sc st)"
| "exec (Assign_team now rid tid) st = snd (assign_team now rid tid st)"
| "exec (Verify_cleanup now sf an rid email notes photos) st =
     snd (verify_cleanup now sf an rid email notes photos st)"
| "exec (Mark_completed now rid) st = snd (mark_completed now rid st)"

fun run :: "operation list \<Rightarrow> store \<Rightarrow> store" where
  "run [] st = st"
| "run (x # xs) st = run xs (exec x st)"

definition empty_store :: store where
  "empty_store = \<lparr>cleanups = [], teams = [], awards = []\<rparr>"

section \<open>The record classes and their storage dictionaries\<close>

text \<open>
  The classes \<^verbatim>\<open>Report\<close>, \<^verbatim>\<open>CleanupReport\<close> and \<^verbatim>\<open>CleanupTeam\<close> convert an instance
  to a dictionary (\<^verbatim>\<open>to_dict\<close>) and back (\<^verbatim>\<open>from_dict\<close>).  Neither direction checks or
  converts a value, so an attribute holds whatever Python value it was given: attributes
  and dictionary values are \<open>pyval\<close>s, and a dictionary is an association list.
\<close>

datatype pyval =
    PNone
  | PBool bool
  | PInt int
  | PFloat rat
  | PStr string
  | PList "pyval list"
  | PDict "(string \<times> pyval) list"

type_synonym pydict = "(string \<times> pyval) list"

datatype py_error = KeyError string

fun py_truthy :: "pyval \<Rightarrow> bool" where
  "py_truthy PNone = False"
| "py_truthy (PBool b) = b"
| "py_truthy (PInt i) = (i \<noteq> 0)"
| "py_truthy (PFloat r) = (r \<noteq> 0)"
| "py_truthy (PStr s) = (s \<noteq> [])"
| "py_truthy (PList xs) = (xs \<noteq> [])"
| "py_truthy (PDict kvs) = (kvs \<noteq> [])"

text \<open>\<^verbatim>\<open>data.get(k, default)\<close> and \<^verbatim>\<open>data[k]\<close>.\<close>

definition dict_get :: "pydict \<Rightarrow> string \<Rightarrow> pyval \<Rightarrow> pyval" where
  "dict_get data k dflt = (case map_of data k of None \<Rightarrow> dflt | Some v \<Rightarrow> v)"

definition dict_item :: "pydict \<Rightarrow> string \<Rightarrow> py_error + pyval" where
  "dict_item data k = (case map_of data k of None \<Rightarrow> Inl (KeyError k) | Some v \<Rightarrow> Inr v)"

record Report_obj =
  rep_filename :: pyval
  rep_latitude :: pyval
  rep_longitude :: pyval
  rep_location_name :: pyval
  rep_score :: pyval
  rep_analysis :: pyval
  rep_reporter_name :: pyval
  rep_reporter_email :: pyval
  rep_points :: pyval
  rep_timestamp :: pyval

text \<open>\<^verbatim>\<open>Report.__init__\<close>: the constructor has no timestamp parameter; it reads the
  clock.\<close>

definition Report_init ::
  "(nat \<Rightarrow> timestamp) \<Rightarrow> pyval \<Rightarrow> pyval \<Rightarrow> pyval \<Rightarrow> pyval \<Rightarrow> pyval \<Rightarrow> pyval \<Rightarrow> pyval \<Rightarrow> pyval
     \<Rightarrow> pyval \<Rightarrow> Report_obj" where
  "Report_init now fn lat lon loc sc an rn re pts =
     \<lparr>rep_filename = fn, rep_latitude = lat, rep_longitude = lon, rep_location_name = loc,
      rep_score = sc, rep_analysis = an, rep_reporter_name = rn, rep_reporter_email = re,
      rep_points = pts, rep_timestamp = PStr (now 0)\<rparr>"

definition Report_to_dict :: "Report_obj \<Rightarrow> pydict" where
  "Report_to_dict r =
     [(''filename'', rep_filename r), (''latitude'', rep_latitude r),
      (''longitude'', rep_longitude r), (''location_name'', rep_location_name r),
      (''score'', rep_score r), (''analysis'', rep_analysis r),
      (''reporter_name'', rep_reporter_name r), (''reporter_email'', rep_reporter_email r),
      (''points'', rep_points r), (''timestamp'', rep_timestamp r)]"

definition Report_from_dict :: "(nat \<Rightarrow> timestamp) \<Rightarrow> pydict \<Rightarrow> Report_obj" where
  "Report_from_dict now data =
     Report_init now
       (dict_get data ''filename'' (PStr []))
       (dict_get data ''latitude'' (PStr []))
       (dict_get data ''longitude'' (PStr []))
       (dict_get data ''location_name'' (PStr []))
       (dict_get data ''score'' (PInt 0))
       (dict_get data ''analysis'' (PStr []))
       (dict_get data ''reporter_name'' (PStr []))
       (dict_get data ''reporter_email'' (PStr []))
       (dict_get data ''points'' (PInt 0))"

record CleanupReport_obj =
  cr_report_id :: pyval
  cr_pollution_report :: pyval
  cr_status :: pyval
  cr_assigned_team :: pyval
  cr_assigned_date :: pyval
  cr_start_date :: pyval
  cr_completion_date :: pyval
  cr_cleanup_notes :: pyval
  cr_verification_photos :: pyval
  cr_cleanup_points :: pyval
  cr_created_at :: pyval
  cr_updated_at :: pyval

definition CleanupReport_init ::
  "(nat \<Rightarrow> timestamp) \<Rightarrow> pyval \<Rightarrow> pyval \<Rightarrow> pyval \<Rightarrow> CleanupReport_obj" where
  "CleanupReport_init now rid pr st =
     \<lparr>cr_report_id = rid, cr_pollution_report = pr, cr_status = st,
      cr_assigned_team = PNone, cr_assigned_date = PNone, cr_start_date = PNone,
      cr_completion_date = PNone, cr_cleanup_notes = PStr [],
      cr_verification_photos = PList [], cr_cleanup_points = PInt 0,
      cr_created_at = PStr (now 0), cr_updated_at = PStr (now 1)\<rparr>"

definition CleanupReport_to_dict :: "CleanupReport_obj \<Rightarrow> pydict" where
  "CleanupReport_to_dict c =
     [(''report_id'', cr_report_id c), (''pollution_report'', cr_pollution_report c),
      (''status'', cr_status c), (''assigned_team'', cr_assigned_team c),
      (''assigned_date'', cr_assigned_date c), (''start_date'', cr_start_date c),
      (''completion_date'', cr_completion_date c), (''cleanup_notes'', cr_cleanup_notes c),
      (''verification_photos'', cr_verification_photos c),
      (''cleanup_points'', cr_cleanup_points c),
      (''created_at'', cr_created_at c), (''updated_at'', cr_updated_at c)]"

definition CleanupReport_from_dict ::
  "(nat \<Rightarrow> timestamp) \<Rightarrow> pydict \<Rightarrow> py_error + CleanupReport_obj" where
  "CleanupReport_from_dict now data =
     (case dict_item data ''report_id'' of
        Inl e \<Rightarrow> Inl e
      | Inr rid \<Rightarrow>
          (case dict_item data ''pollution_report'' of
             Inl e \<Rightarrow> Inl e
           | Inr pr \<Rightarrow>
               (case dict_item data ''status'' of
                  Inl e \<Rightarrow> Inl e
                | Inr st \<Rightarrow>
                    Inr ((CleanupReport_init now rid pr st)
                      \<lparr>cr_assigned_team := dict_get data ''assigned_team'' PNone,
                       cr_assigned_date := dict_get data ''assigned_date'' PNone,
                       cr_start_date := dict_get data ''start_date'' PNone,
                       cr_completion_date := dict_get data ''completion_date'' PNone,
                       cr_cleanup_notes := dict_get data ''cleanup_notes'' (PStr []),
                       cr_verification_photos :=
                         dict_get data ''verification_photos'' (PList []),
                       cr_cleanup_points := dict_get data ''cleanup_points'' (PInt 0),
                       cr_created_at := dict_get data ''created_at'' PNone,
                       cr_updated_at := dict_get data ''updated_at'' PNone\<rparr>))))"

record CleanupTeam_obj =
  ct_team_id :: pyval
  ct_name :: pyval
  ct_leader_email :: pyval
  ct_members :: pyval
  ct_status :: pyval
  ct_current_task :: pyval
  ct_total_cleanups :: pyval
  ct_total_points :: pyval
  ct_rating :: pyval
  ct_created_at :: pyval
  ct_last_activity :: pyval

text \<open>\<^verbatim>\<open>CleanupTeam.__init__\<close> stores \<^verbatim>\<open>members or []\<close>.\<close>

definition CleanupTeam_init ::
  "(nat \<Rightarrow> timestamp) \<Rightarrow> pyval \<Rightarrow> pyval \<Rightarrow> pyval \<Rightarrow> pyval \<Rightarrow> CleanupTeam_obj" where
  "CleanupTeam_init now tid nm leader ms =
     \<lparr>ct_team_id = tid, ct_name = nm, ct_leader_email = leader,
      ct_members = (if py_truthy ms then ms else PList []),
      ct_status = PStr ''available'', ct_current_task = PNone,
      ct_total_cleanups = PInt 0, ct_total_points = PInt 0, ct_rating = PFloat 5,
      ct_created_at = PStr (now 0), ct_last_activity = PStr (now 1)\<rparr>"

definition CleanupTeam_to_dict :: "CleanupTeam_obj \<Rightarrow> pydict" where
  "CleanupTeam_to_dict t =
     [(''team_id'', ct_team_id t), (''name'', ct_name t),
      (''leader_email'', ct_leader_email t), (''members'', ct_members t),
      (''status'', ct_status t), (''current_task'', ct_current_task t),
      (''total_cleanups'', ct_total_cleanups t), (''total_points'', ct_total_points t),
      (''rating'', ct_rating t), (''created_at'', ct_created_at t),
      (''last_activity'', ct_last_activity t)]"

definition CleanupTeam_from_dict ::
  "(nat \<Rightarrow> timestamp) \<Rightarrow> pydict \<Rightarrow> py_error + CleanupTeam_obj" where
  "CleanupTeam_from_dict now data =
     (case dict_item data ''team_id'' of
        Inl e \<Rightarrow> Inl e
      | Inr tid \<Rightarrow>
          (case dict_item data ''name'' of
             Inl e \<Rightarrow> Inl e
           | Inr nm \<Rightarrow>
               (case dict_item data ''leader_email'' of
                  Inl e \<Rightarrow> Inl e
                | Inr leader \<Rightarrow>
                    Inr ((CleanupTeam_init now tid nm leader
                            (dict_get data ''members'' (PList [])))
                      \<lparr>ct_status := dict_get data ''status'' (PStr ''available''),
                       ct_current_task := dict_get data ''current_task'' PNone,
                       ct_total_cleanups := dict_get data ''total_cleanups'' (PInt 0),
                       ct_total_points := dict_get data ''total_points'' (PInt 0),
                       ct_rating := dict_get data ''rating'' (PFloat 5),
                       ct_created_at := dict_get data ''created_at'' PNone,
                       ct_last_activity := dict_get data ''last_activity'' PNone\<rparr>))))"
section \<open>Example data\<close>

text \<open>Concrete clock readings, reports, teams and histories used to run the operations.\<close>

definition clock0 :: "nat \<Rightarrow> timestamp" where
  "clock0 k = ''2024-05-01T10:00:0'' @ str_nat k"

definition clock1 :: "nat \<Rightarrow> timestamp" where
  "clock1 k = ''2024-05-02T18:30:0'' @ str_nat k"

definition report82 :: report where
  "report82 =
     \<lparr>filename = ''asha_beach.jpg'', latitude = ''12.87'', longitude = ''74.84'',
      location_name = ''Panambur Beach'', score = 82, analysis = ''Heavy plastic waste'',
      reporter_name = ''asha'', reporter_email = ''asha@example.org'', points = 20,
      timestamp = ''2024-05-01T09:59:00''\<rparr>"

definition example_team :: "string \<Rightarrow> rat \<Rightarrow> int \<Rightarrow> team" where
  "example_team tid r n =
     \<lparr>team_id = tid, name = tid, leader_email = ''lead@example.org'',
      members = [''lead@example.org'', ''ravi@example.org''],
      team_status = ''available'', current_task = None, total_cleanups = n,
      total_points = 0, rating = r, team_created_at = ''2024-01-01T00:00:00'',
      last_activity = ''2024-01-01T00:00:00''\<rparr>"

text \<open>The pool of the specification's example: A (rating 5, 10 cleanups), B (rating 5,
  20 cleanups), C (rating 4, 100 cleanups), and one pending task.\<close>

definition abc_store :: store where
  "abc_store =
     \<lparr>cleanups = [new_cleanup clock0 ''cleanup_1'' report82],
      teams = [example_team ''A'' 5 10, example_team ''B'' 5 20, example_team ''C'' 4 100],
      awards = []\<rparr>"

text \<open>One team of two members, and one task created from a report of score 82: the task is
  assigned to the team on creation.\<close>

definition assigned_store :: store where
  "assigned_store =
     run [Create_team clock0 ''team_1'' ''Shore Crew'' ''lead@example.org''
            (Some [''lead@example.org'', ''ravi@example.org'']),
          Create_cleanup_report clock0 ''cleanup_1'' report82] empty_store"

text \<open>One task created while no team exists: it stays pending and unassigned.\<close>

definition unassigned_store :: store where
  "unassigned_store = run [Create_cleanup_report clock0 ''cleanup_1'' report82] empty_store"

text \<open>The assigned task after a first verification that was refused with score 45: its
  photo list and notes are those of that submission.\<close>

definition resubmit_store :: store where
  "resubmit_store =
     exec (Submit_cleanup_verification clock1 ''cleanup_1'' ''ravi@example.org''
             ''first pass'' [''first.jpg''] (Some 45)) assigned_store"

text \<open>A scoring collaborator that gives every photo the score 30, and one that gives 18.\<close>

definition scorer30 :: "string \<Rightarrow> analysis_result" where
  "scorer30 p = \<lparr>result_score = Some 30, result_analysis = ''Minor debris remaining''\<rparr>"

definition scorer18 :: "string \<Rightarrow> analysis_result" where
  "scorer18 p = \<lparr>result_score = Some 18, result_analysis = ''Area is very clean''\<rparr>"

text \<open>A second team is created and the assigned task is assigned to it by hand.\<close>

definition reassigned_store :: store where
  "reassigned_store =
     run [Create_team clock0 ''team_2'' ''Tide Watch'' ''mina@example.org''
            (Some [''mina@example.org'', ''omar@example.org'']),
          Assign_team clock1 ''cleanup_1'' (Some ''team_2'')] assigned_store"

text \<open>The instance of \<^verbatim>\<open>Report\<close> behind \<open>report82\<close>.\<close>

definition report82_obj :: Report_obj where
  "report82_obj =
     \<lparr>rep_filename = PStr ''asha_beach.jpg'', rep_latitude = PStr ''12.87'',
      rep_longitude = PStr ''74.84'', rep_location_name = PStr ''Panambur Beach'',
      rep_score = PInt 82, rep_analysis = PStr ''Heavy plastic waste'',
      rep_reporter_name = PStr ''asha'', rep_reporter_email = PStr ''asha@example.org'',
      rep_points = PInt 20, rep_timestamp = PStr ''2024-05-01T09:59:00''\<rparr>"

text \<open>A pool whose first team is busy and whose other teams are available: A (busy,
  rating 5, 30 cleanups), B (rating 5, 10 cleanups), C (rating 5, 20 cleanups), D
  (rating 4, 100 cleanups), and one pending task.\<close>

definition mixed_pool_store :: store where
  "mixed_pool_store =
     \<lparr>cleanups = [new_cleanup clock0 ''cleanup_1'' report82],
      teams = [(example_team ''A'' 5 30)\<lparr>team_status := ''busy'', current_task := Some ''cleanup_0''\<rparr>,
               example_team ''B'' 5 10, example_team ''C'' 5 20, example_team ''D'' 4 100],
      awards = []\<rparr>"

text \<open>A second task is created while the only team is busy with the first.\<close>

definition busy_pool_store :: store where
  "busy_pool_store = exec (Create_cleanup_report clock1 ''cleanup_2'' report82) assigned_store"

text \<open>A scoring collaborator that gives every photo the score 45 (the fallback score of
  \<^verbatim>\<open>_fallback_cleanup_analysis\<close>).\<close>

definition scorer45 :: "string \<Rightarrow> analysis_result" where
  "scorer45 p = \<lparr>result_score = Some 45, result_analysis = ''Fallback analysis''\<rparr>"

section \<open>Properties of single records\<close>

text \<open>A task whose status is \<open>cleaned\<close> carries a completion date.\<close>

definition task_invariant :: "cleanup \<Rightarrow> bool" where
  "task_invariant c = (status c = CLEANED \<longrightarrow> completion_date c \<noteq> None)"

text \<open>A team is busy exactly when it has a current task, and its current task is the
  identifier of a stored task.\<close>

definition team_invariant :: "cleanup list \<Rightarrow> team \<Rightarrow> bool" where
  "team_invariant cs t =
     ((team_status t = ''busy'') = (current_task t \<noteq> None) \<and>
      (case current_task t of None \<Rightarrow> True | Some rid \<Rightarrow> rid \<in> set (map report_id cs)))"

section \<open>Lists: first match and first maximum\<close>

lemma find_idx_Some:
  "find_idx P xs = Some i \<Longrightarrow> i < length xs \<and> P (xs ! i) \<and> (\<forall>j<i. \<not> P (xs ! j))"
proof (induction xs arbitrary: i)
  case Nil
  then show ?case by simp
next
  case (Cons x xs)
  show ?case
  proof (cases "P x")
    case True
    with Cons.prems show ?thesis by simp
  next
    case False
    with Cons.prems obtain k where k: "find_idx P xs = Some k" "i = Suc k"
      by auto
    from Cons.IH [OF k(1)] False k(2) show ?thesis
      by (auto simp: nth_Cons split: nat.splits)
  qed
qed

lemma find_idx_None: "find_idx P xs = None \<longleftrightarrow> (\<forall>x\<in>set xs. \<not> P x)"
  by (induction xs) auto

lemma find_idx_first:
  "i < length xs \<Longrightarrow> P (xs ! i) \<Longrightarrow> \<forall>j<i. \<not> P (xs ! j) \<Longrightarrow> find_idx P xs = Some i"
proof (induction xs arbitrary: i)
  case Nil
  then show ?case by simp
next
  case (Cons x xs)
  show ?case
  proof (cases i)
    case 0
    with Cons.prems show ?thesis by simp
  next
    case (Suc k)
    with Cons.prems have "\<not> P x" by auto
    moreover have "find_idx P xs = Some k"
      using Cons.prems Suc by (intro Cons.IH) auto
    ultimately show ?thesis using Suc by simp
  qed
qed

lemma find_idx_update:
  assumes "find_idx P xs = Some i" and "P v"
  shows "find_idx P (xs[i := v]) = Some i"
proof -
  from find_idx_Some [OF assms(1)]
  have i: "i < length xs" and n: "\<forall>j<i. \<not> P (xs ! j)" by auto
  show ?thesis
    by (rule find_idx_first) (use i n assms(2) in auto)
qed

lemma py_max_by_first_max:
  fixes key :: "nat \<Rightarrow> 'k::linorder"
  assumes "sorted_wrt (<) (ys @ xs)" and "b \<in> set ys"
    and "\<forall>y\<in>set ys. key y \<le> key b"
    and "\<forall>y\<in>set ys. y < b \<longrightarrow> key y < key b"
  shows "py_max_by key b xs \<in> set (ys @ xs) \<and>
         (\<forall>y\<in>set (ys @ xs). key y \<le> key (py_max_by key b xs)) \<and>
         (\<forall>y\<in>set (ys @ xs). y < py_max_by key b xs \<longrightarrow> key y < key (py_max_by key b xs))"
  using assms
proof (induction xs arbitrary: ys b)
  case Nil
  then show ?case by simp
next
  case (Cons x xs)
  let ?b = "if key b < key x then x else b"
  have s: "sorted_wrt (<) ((ys @ [x]) @ xs)" using Cons.prems(1) by simp
  have lt: "\<forall>y\<in>set ys. y < x" using Cons.prems(1) by (auto simp: sorted_wrt_append)
  have m: "?b \<in> set (ys @ [x])" using Cons.prems(2) by simp
  have ge: "\<forall>y\<in>set (ys @ [x]). key y \<le> key ?b"
    using Cons.prems(3) by (auto intro: order.trans less_imp_le)
  have fst: "\<forall>y\<in>set (ys @ [x]). y < ?b \<longrightarrow> key y < key ?b"
    using Cons.prems(2,3,4) lt by (auto intro: le_less_trans)
  from Cons.IH [OF s m ge fst] show ?case by simp
qed


lemma find_idx_first_conj:
  "i < length xs \<and> P (xs ! i) \<and> (\<forall>j<i. \<not> P (xs ! j)) \<Longrightarrow> find_idx P xs = Some i"
  by (rule find_idx_first) auto

section \<open>The example stores, evaluated\<close>

lemma unassigned_store_eq:
  "unassigned_store =
     \<lparr>cleanups = [new_cleanup clock0 ''cleanup_1'' report82], teams = [], awards = []\<rparr>"
  by (simp add: unassigned_store_def empty_store_def create_cleanup_report_def
      auto_assign_team_def available_teams_def new_cleanup_def)

lemma clock0_vals:
  "clock0 0 = ''2024-05-01T10:00:00''" "clock0 1 = ''2024-05-01T10:00:01''"
  "clock0 2 = ''2024-05-01T10:00:02''" "clock0 3 = ''2024-05-01T10:00:03''"
  "clock0 4 = ''2024-05-01T10:00:04''"
  by (simp_all add: clock0_def)

lemma clock1_vals:
  "clock1 0 = ''2024-05-02T18:30:00''" "clock1 1 = ''2024-05-02T18:30:01''"
  "clock1 2 = ''2024-05-02T18:30:02''"
  by (simp_all add: clock1_def)

lemma assigned_store_eq:
  "assigned_store =
     \<lparr>cleanups =
        [\<lparr>report_id = ''cleanup_1'', pollution_report = report82, status = ''in_progress'',
          assigned_team = Some ''team_1'', assigned_date = Some ''2024-05-01T10:00:02'',
          start_date = None, completion_date = None, cleanup_notes = [],
          verification_photos = [], cleanup_points = 0,
          created_at = ''2024-05-01T10:00:00'', updated_at = ''2024-05-01T10:00:03'',
          verification_analysis = None, cleanup_score = None\<rparr>],
      teams =
        [\<lparr>team_id = ''team_1'', name = ''Shore Crew'', leader_email = ''lead@example.org'',
          members = [''lead@example.org'', ''ravi@example.org''],
          team_status = ''busy'', current_task = Some ''cleanup_1'',
          total_cleanups = 0, total_points = 0, rating = 5,
          team_created_at = ''2024-05-01T10:00:00'',
          last_activity = ''2024-05-01T10:00:04''\<rparr>],
      awards = []\<rparr>"
  by (simp add: assigned_store_def empty_store_def create_team_def new_team_def
      create_cleanup_report_def auto_assign_team_def available_teams_def new_cleanup_def
      Let_def clock0_def IN_PROGRESS_def PENDING_def)

lemma assigned_store_task:
  "find_idx (\<lambda>c. report_id c = ''cleanup_1'') (cleanups assigned_store) = Some 0"
  "status (cleanups assigned_store ! 0) = IN_PROGRESS"
  "assigned_team (cleanups assigned_store ! 0) = Some ''team_1''"
  "find_idx (\<lambda>t. Some (team_id t) = assigned_team (cleanups assigned_store ! 0))
     (teams assigned_store) = Some 0"
  "team_status (teams assigned_store ! 0) = ''busy''"
  "current_task (teams assigned_store ! 0) = Some ''cleanup_1''"
  "members (teams assigned_store ! 0) = [''lead@example.org'', ''ravi@example.org'']"
  by (simp_all add: assigned_store_eq IN_PROGRESS_def)


lemma resubmit_store_eq:
  "resubmit_store =
     assigned_store\<lparr>cleanups :=
       [(cleanups assigned_store ! 0)
          \<lparr>verification_photos := [''first.jpg''], updated_at := clock1 0,
           status := IN_PROGRESS,
           cleanup_notes := ''first pass'' @ failed_annotation 45\<rparr>]\<rparr>"
  by (simp add: resubmit_store_def assigned_store_eq submit_cleanup_verification_def
      truthy_def Let_def)

lemma resubmit_store_task:
  "find_idx (\<lambda>c. report_id c = ''cleanup_1'') (cleanups resubmit_store) = Some 0"
  "verification_photos (cleanups resubmit_store ! 0) = [''first.jpg'']"
  by (simp_all add: resubmit_store_eq assigned_store_eq)


lemma report82_score: "score report82 = 82"
  by (simp add: report82_def)


lemma busy_pool_store_eq:
  "busy_pool_store =
     assigned_store\<lparr>cleanups := cleanups assigned_store @ [new_cleanup clock1 ''cleanup_2'' report82]\<rparr>"
  by (simp add: busy_pool_store_def assigned_store_eq create_cleanup_report_def
      auto_assign_team_def available_teams_def new_cleanup_def Let_def)


lemma resubmit_store_shape:
  "0 < length (cleanups resubmit_store)"
  "report_id (cleanups resubmit_store ! 0) = ''cleanup_1''"
  "\<forall>j<0. report_id (cleanups resubmit_store ! j) \<noteq> ''cleanup_1''"
  "assigned_team (cleanups resubmit_store ! 0) = Some ''team_1''"
  "length (teams resubmit_store) = 1"
  "team_id (teams resubmit_store ! 0) = ''team_1''"
  "members (teams resubmit_store ! 0) = [''lead@example.org'', ''ravi@example.org'']"
  by (simp_all add: resubmit_store_eq assigned_store_eq)


lemma assigned_store_shape:
  "0 < length (cleanups assigned_store)"
  "report_id (cleanups assigned_store ! 0) = ''cleanup_1''"
  "\<forall>j<0. report_id (cleanups assigned_store ! j) \<noteq> ''cleanup_1''"
  "assigned_team (cleanups assigned_store ! 0) = Some ''team_1''"
  "length (teams assigned_store) = 1"
  "team_id (teams assigned_store ! 0) = ''team_1''"
  "members (teams assigned_store ! 0) = [''lead@example.org'', ''ravi@example.org'']"
  "\<forall>c\<in>set (cleanups assigned_store). report_id c \<noteq> ''cleanup_9''"
  by (simp_all add: assigned_store_eq)

lemma unassigned_store_shape:
  "0 < length (cleanups unassigned_store)"
  "report_id (cleanups unassigned_store ! 0) = ''cleanup_1''"
  "\<forall>j<0. report_id (cleanups unassigned_store ! j) \<noteq> ''cleanup_1''"
  "assigned_team (cleanups unassigned_store ! 0) = None"
  "teams unassigned_store = []"
  by (simp_all add: unassigned_store_eq new_cleanup_def)
section \<open>Auto-assignment selects the best available team\<close>

lemma available_teams_set:
  "set (available_teams ts) = {j. j < length ts \<and> team_status (ts ! j) = ''available''}"
  by (auto simp: available_teams_def)

lemma available_teams_sorted: "sorted_wrt (<) (available_teams ts)"
  by (simp add: available_teams_def sorted_wrt_filter)

lemma team_key_le:
  "team_key ts k \<le> team_key ts b \<longleftrightarrow>
     rating (ts ! k) < rating (ts ! b) \<or>
     rating (ts ! k) = rating (ts ! b) \<and> total_cleanups (ts ! k) \<le> total_cleanups (ts ! b)"
  by (auto simp: team_key_def less_eq_prod_def)

lemma team_key_less:
  "team_key ts k < team_key ts b \<longleftrightarrow>
     rating (ts ! k) < rating (ts ! b) \<or>
     rating (ts ! k) = rating (ts ! b) \<and> total_cleanups (ts ! k) < total_cleanups (ts ! b)"
  by (auto simp: team_key_def less_prod_def)

lemma best_team_index:
  assumes "available_teams ts = j # js"
  defines "bi \<equiv> py_max_by (team_key ts) j js"
  shows "bi < length ts" and "team_status (ts ! bi) = ''available''"
    and "\<forall>k<length ts. team_status (ts ! k) = ''available'' \<longrightarrow> team_key ts k \<le> team_key ts bi"
    and "\<forall>k<bi. team_status (ts ! k) = ''available'' \<longrightarrow> team_key ts k < team_key ts bi"
proof -
  have s: "sorted_wrt (<) ([j] @ js)"
    using available_teams_sorted [of ts] assms(1) by simp
  have all: "bi \<in> set ([j] @ js) \<and>
         (\<forall>y\<in>set ([j] @ js). team_key ts y \<le> team_key ts bi) \<and>
         (\<forall>y\<in>set ([j] @ js). y < bi \<longrightarrow> team_key ts y < team_key ts bi)"
    unfolding bi_def by (rule py_max_by_first_max [OF s]) auto
  have set_eq: "set ([j] @ js) = {j. j < length ts \<and> team_status (ts ! j) = ''available''}"
    using available_teams_set [of ts] assms(1) by simp
  from all set_eq show "bi < length ts" and "team_status (ts ! bi) = ''available''"
    by auto
  from all set_eq show "\<forall>k<length ts. team_status (ts ! k) = ''available'' \<longrightarrow> team_key ts k \<le> team_key ts bi"
    by auto
  from all set_eq show "\<forall>k<bi. team_status (ts ! k) = ''available'' \<longrightarrow> team_key ts k < team_key ts bi"
    using \<open>bi < length ts\<close> by auto
qed

lemma auto_assign_team_cases:
  "(available_teams (teams st) = [] \<longrightarrow> auto_assign_team now rid st = (None, st)) \<and>
   (find_idx (\<lambda>c. report_id c = rid) (cleanups st) = Some ci \<and>
    available_teams (teams st) \<noteq> [] \<longrightarrow>
      (\<exists>bi<length (teams st).
         team_status (teams st ! bi) = ''available'' \<and>
         (\<forall>k<length (teams st). team_status (teams st ! k) = ''available'' \<longrightarrow>
            rating (teams st ! k) < rating (teams st ! bi) \<or>
            rating (teams st ! k) = rating (teams st ! bi) \<and>
              total_cleanups (teams st ! k) \<le> total_cleanups (teams st ! bi)) \<and>
         (\<forall>k<bi. team_status (teams st ! k) = ''available'' \<longrightarrow>
            rating (teams st ! k) < rating (teams st ! bi) \<or>
            rating (teams st ! k) = rating (teams st ! bi) \<and>
              total_cleanups (teams st ! k) < total_cleanups (teams st ! bi)) \<and>
         auto_assign_team now rid st =
           (Some (team_id (teams st ! bi)),
            st\<lparr>cleanups := (cleanups st)
                  [ci := (cleanups st ! ci)
                     \<lparr>assigned_team := Some (team_id (teams st ! bi)),
                      assigned_date := Some (now 0),
                      status := IN_PROGRESS,
                      updated_at := now 1\<rparr>],
               teams := (teams st)
                  [bi := (teams st ! bi)
                     \<lparr>team_status := ''busy'',
                      current_task := Some rid,
                      last_activity := now 2\<rparr>]\<rparr>)))"
proof (intro conjI impI)
  assume "available_teams (teams st) = []"
  then show "auto_assign_team now rid st = (None, st)"
    by (simp add: auto_assign_team_def split: option.splits)
next
  assume a: "find_idx (\<lambda>c. report_id c = rid) (cleanups st) = Some ci \<and>
    available_teams (teams st) \<noteq> []"
  then obtain j js where av: "available_teams (teams st) = j # js"
    by (cases "available_teams (teams st)") auto
  let ?bi = "py_max_by (team_key (teams st)) j js"
  note b = best_team_index [OF av]
  have r: "auto_assign_team now rid st =
           (Some (team_id (teams st ! ?bi)),
            st\<lparr>cleanups := (cleanups st)
                  [ci := (cleanups st ! ci)
                     \<lparr>assigned_team := Some (team_id (teams st ! ?bi)),
                      assigned_date := Some (now 0),
                      status := IN_PROGRESS,
                      updated_at := now 1\<rparr>],
               teams := (teams st)
                  [?bi := (teams st ! ?bi)
                     \<lparr>team_status := ''busy'',
                      current_task := Some rid,
                      last_activity := now 2\<rparr>]\<rparr>)"
    using a av by (simp add: auto_assign_team_def Let_def)
  show "\<exists>bi<length (teams st). 
         team_status (teams st ! bi) = ''available'' \<and>
         (\<forall>k<length (teams st). team_status (teams st ! k) = ''available'' \<longrightarrow>
            rating (teams st ! k) < rating (teams st ! bi) \<or>
            rating (teams st ! k) = rating (teams st ! bi) \<and>
              total_cleanups (teams st ! k) \<le> total_cleanups (teams st ! bi)) \<and>
         (\<forall>k<bi. team_status (teams st ! k) = ''available'' \<longrightarrow>
            rating (teams st ! k) < rating (teams st ! bi) \<or>
            rating (teams st ! k) = rating (teams st ! bi) \<and>
              total_cleanups (teams st ! k) < total_cleanups (teams st ! bi)) \<and>
         auto_assign_team now rid st =
           (Some (team_id (teams st ! bi)),
            st\<lparr>cleanups := (cleanups st)
                  [ci := (cleanups st ! ci)
                     \<lparr>assigned_team := Some (team_id (teams st ! bi)),
                      assigned_date := Some (now 0),
                      status := IN_PROGRESS,
                      updated_at := now 1\<rparr>],
               teams := (teams st)
                  [bi := (teams st ! bi)
                     \<lparr>team_status := ''busy'',
                      current_task := Some rid,
                      last_activity := now 2\<rparr>]\<rparr>)"
    apply (rule exI [of _ ?bi])
    using b r by (simp add: team_key_le team_key_less)
qed



lemma available_teams_Nil_iff:
  "available_teams ts = [] \<longleftrightarrow> (\<forall>t\<in>set ts. team_status t \<noteq> ''available'')"
proof -
  have "available_teams ts = [] \<longleftrightarrow> set (available_teams ts) = {}" by simp
  also have "\<dots> \<longleftrightarrow> (\<forall>j<length ts. team_status (ts ! j) \<noteq> ''available'')"
    unfolding available_teams_set by auto
  also have "\<dots> \<longleftrightarrow> (\<forall>t\<in>set ts. team_status t \<noteq> ''available'')"
    by (simp add: all_set_conv_all_nth)
  finally show ?thesis .
qed

text \<open>
  Claim C3.  When no team of the pool has status \<open>available\<close>, \<^verbatim>\<open>auto_assign_team\<close>
  returns \<^verbatim>\<open>None\<close> and changes nothing, so a pending task stays pending.  When the
  task exists (\<open>ci\<close> is the first position with the given identifier) and some team of
  the pool is available, the selected team \<open>bi\<close> is available, its key (rating, total
  cleanups) is lexicographically greatest among the available teams, and every available
  team before it in the list has a strictly smaller key: ties go to the first team in
  list order.  The task and the selected team are updated as the source does.
\<close>

theorem auto_assign_team_selects_best:
  "((\<forall>t\<in>set (teams st). team_status t \<noteq> ''available'') \<longrightarrow>
      auto_assign_team now rid st = (None, st)) \<and>
   (ci < length (cleanups st) \<and> report_id (cleanups st ! ci) = rid \<and>
    (\<forall>j<ci. report_id (cleanups st ! j) \<noteq> rid) \<and>
    (\<exists>t\<in>set (teams st). team_status t = ''available'') \<longrightarrow>
      (\<exists>bi<length (teams st).
         team_status (teams st ! bi) = ''available'' \<and>
         (\<forall>k<length (teams st). team_status (teams st ! k) = ''available'' \<longrightarrow>
            rating (teams st ! k) < rating (teams st ! bi) \<or>
            rating (teams st ! k) = rating (teams st ! bi) \<and>
              total_cleanups (teams st ! k) \<le> total_cleanups (teams st ! bi)) \<and>
         (\<forall>k<bi. team_status (teams st ! k) = ''available'' \<longrightarrow>
            rating (teams st ! k) < rating (teams st ! bi) \<or>
            rating (teams st ! k) = rating (teams st ! bi) \<and>
              total_cleanups (teams st ! k) < total_cleanups (teams st ! bi)) \<and>
         auto_assign_team now rid st =
           (Some (team_id (teams st ! bi)),
            st\<lparr>cleanups := (cleanups st)
                  [ci := (cleanups st ! ci)
                     \<lparr>assigned_team := Some (team_id (teams st ! bi)),
                      assigned_date := Some (now 0),
                      status := IN_PROGRESS,
                      updated_at := now 1\<rparr>],
               teams := (teams st)
                  [bi := (teams st ! bi)
                     \<lparr>team_status := ''busy'',
                      current_task := Some rid,
                      last_activity := now 2\<rparr>]\<rparr>)))"
proof -
  have f: "ci < length (cleanups st) \<and> report_id (cleanups st ! ci) = rid \<and>
      (\<forall>j<ci. report_id (cleanups st ! j) \<noteq> rid) \<Longrightarrow>
      find_idx (\<lambda>c. report_id c = rid) (cleanups st) = Some ci"
    by (rule find_idx_first) auto
  have n: "(\<exists>t\<in>set (teams st). team_status t = ''available'') \<longleftrightarrow>
      available_teams (teams st) \<noteq> []"
    unfolding available_teams_Nil_iff by blast
  show ?thesis
    using auto_assign_team_cases [of st now rid ci] f
    unfolding n [symmetric] available_teams_Nil_iff
    by blast
qed


theorem auto_assign_team_selects_best_witness:
  "length (teams busy_pool_store) = 1 \<and>
   team_status (teams busy_pool_store ! 0) = ''busy'' \<and>
   report_id (cleanups busy_pool_store ! 1) = ''cleanup_2'' \<and>
   status (cleanups busy_pool_store ! 1) = PENDING \<and>
   auto_assign_team clock0 ''cleanup_2'' busy_pool_store = (None, busy_pool_store) \<and>
   fst (auto_assign_team clock0 ''cleanup_1'' abc_store) = Some ''B'' \<and>
   team_status (teams mixed_pool_store ! 0) = ''busy'' \<and>
   fst (auto_assign_team clock0 ''cleanup_1'' mixed_pool_store) = Some ''C'' \<and>
   (\<exists>bi<length (teams mixed_pool_store).
      team_id (teams mixed_pool_store ! bi) = ''C'' \<and>
      team_status (teams (snd (auto_assign_team clock0 ''cleanup_1'' mixed_pool_store)) ! bi)
        = ''busy'' \<and>
      assigned_team (cleanups (snd (auto_assign_team clock0 ''cleanup_1'' mixed_pool_store)) ! 0)
        = Some ''C'')"
proof -
  have b0: "length (teams busy_pool_store) = 1"
    "team_status (teams busy_pool_store ! 0) = ''busy''"
    "report_id (cleanups busy_pool_store ! 1) = ''cleanup_2''"
    "status (cleanups busy_pool_store ! 1) = PENDING"
    by (simp_all add: busy_pool_store_eq assigned_store_eq new_cleanup_def)
  have b1: "\<forall>t\<in>set (teams busy_pool_store). team_status t \<noteq> ''available''"
    by (simp add: busy_pool_store_eq assigned_store_eq)
  from auto_assign_team_selects_best [of busy_pool_store clock0 "''cleanup_2''" 0] b1
  have n: "auto_assign_team clock0 ''cleanup_2'' busy_pool_store = (None, busy_pool_store)"
    by blast
  have B: "fst (auto_assign_team clock0 ''cleanup_1'' abc_store) = Some ''B''"
    by (simp add: auto_assign_team_def abc_store_def new_cleanup_def example_team_def
      available_teams_def team_key_def upt_rec less_prod_def Let_def)
  have m0: "team_status (teams mixed_pool_store ! 0) = ''busy''"
    "length (cleanups mixed_pool_store) = 1"
    by (simp_all add: mixed_pool_store_def example_team_def)
  have C: "fst (auto_assign_team clock0 ''cleanup_1'' mixed_pool_store) = Some ''C''"
    by (simp add: auto_assign_team_def mixed_pool_store_def new_cleanup_def example_team_def
      available_teams_def team_key_def upt_rec less_prod_def Let_def)
  have h1: "0 < length (cleanups mixed_pool_store) \<and>
      report_id (cleanups mixed_pool_store ! 0) = ''cleanup_1'' \<and>
      (\<forall>j<0. report_id (cleanups mixed_pool_store ! j) \<noteq> ''cleanup_1'')"
    by (simp add: mixed_pool_store_def new_cleanup_def)
  have h2: "\<exists>t\<in>set (teams mixed_pool_store). team_status t = ''available''"
    by (simp add: mixed_pool_store_def example_team_def)
  from auto_assign_team_selects_best [of mixed_pool_store clock0 "''cleanup_1''" 0] h1 h2
  obtain bi where bi: "bi < length (teams mixed_pool_store)"
    and r: "auto_assign_team clock0 ''cleanup_1'' mixed_pool_store =
           (Some (team_id (teams mixed_pool_store ! bi)),
            mixed_pool_store\<lparr>cleanups := (cleanups mixed_pool_store)
                  [0 := (cleanups mixed_pool_store ! 0)
                     \<lparr>assigned_team := Some (team_id (teams mixed_pool_store ! bi)),
                      assigned_date := Some (clock0 0),
                      status := IN_PROGRESS,
                      updated_at := clock0 1\<rparr>],
               teams := (teams mixed_pool_store)
                  [bi := (teams mixed_pool_store ! bi)
                     \<lparr>team_status := ''busy'',
                      current_task := Some ''cleanup_1'',
                      last_activity := clock0 2\<rparr>]\<rparr>)"
    by blast
  from r C have id: "team_id (teams mixed_pool_store ! bi) = ''C''" by simp
  have busy: "team_status (teams (snd (auto_assign_team clock0 ''cleanup_1'' mixed_pool_store)) ! bi)
        = ''busy''"
    using bi by (simp add: r)
  have asg: "assigned_team (cleanups (snd (auto_assign_team clock0 ''cleanup_1'' mixed_pool_store)) ! 0)
        = Some ''C''"
    using m0(2) id by (simp add: r)
  from bi id busy asg have ex: "\<exists>bi<length (teams mixed_pool_store).
      team_id (teams mixed_pool_store ! bi) = ''C'' \<and>
      team_status (teams (snd (auto_assign_team clock0 ''cleanup_1'' mixed_pool_store)) ! bi)
        = ''busy'' \<and>
      assigned_team (cleanups (snd (auto_assign_team clock0 ''cleanup_1'' mixed_pool_store)) ! 0)
        = Some ''C''"
    by blast
  from b0 n B m0(1) C ex show ?thesis by (intro conjI)
qed

section \<open>Verification submission\<close>

lemma submit_cleanup_verification_not_found:
  assumes "find_idx (\<lambda>c. report_id c = rid) (cleanups st) = None"
  shows "snd (submit_cleanup_verification now rid email notes photos sc st) = st"
    and "\<not> success (fst (submit_cleanup_verification now rid email notes photos sc st))"
  using assms by (simp_all add: submit_cleanup_verification_def)

lemma submit_cleanup_verification_unauthorized:
  assumes "find_idx (\<lambda>c. report_id c = rid) (cleanups st) = Some ci"
    and "truthy (assigned_team (cleanups st ! ci))"
    and "case find_idx (\<lambda>t. Some (team_id t) = assigned_team (cleanups st ! ci)) (teams st) of
           None \<Rightarrow> True
         | Some ti \<Rightarrow> email \<notin> set (members (teams st ! ti))"
  shows "submit_cleanup_verification now rid email notes photos sc st =
           (\<lparr>success = False,
             message = ''Unauthorized: You are not assigned to this cleanup task'',
             response_status = None, points_awarded = None, response_score = None\<rparr>, st)"
  using assms by (simp add: submit_cleanup_verification_def)

lemma submit_cleanup_verification_accepted:
  assumes "find_idx (\<lambda>c. report_id c = rid) (cleanups st) = Some ci"
    and "find_idx (\<lambda>t. Some (team_id t) = assigned_team (cleanups st ! ci)) (teams st) = Some ti"
    and "email \<in> set (members (teams st ! ti))"
    and "sc \<le> 30"
  shows "snd (submit_cleanup_verification now rid email notes photos (Some sc) st) =
           st\<lparr>cleanups := (cleanups st)
                 [ci := (cleanups st ! ci)
                    \<lparr>cleanup_notes := notes, verification_photos := photos,
                     updated_at := now 0, status := CLEANED,
                     completion_date := Some (now 1),
                     cleanup_points := 25 + score (pollution_report (cleanups st ! ci)) div 10\<rparr>],
              teams := free_up_team (now 2)
                 ((cleanups st ! ci)
                    \<lparr>cleanup_notes := notes, verification_photos := photos,
                     updated_at := now 0, status := CLEANED,
                     completion_date := Some (now 1),
                     cleanup_points := 25 + score (pollution_report (cleanups st ! ci)) div 10\<rparr>)
                 (teams st)\<rparr>"
  using assms
  by (simp add: submit_cleanup_verification_def Let_def calculate_cleanup_points_def)

lemma submit_cleanup_verification_rejected:
  assumes "find_idx (\<lambda>c. report_id c = rid) (cleanups st) = Some ci"
    and "find_idx (\<lambda>t. Some (team_id t) = assigned_team (cleanups st ! ci)) (teams st) = Some ti"
    and "email \<in> set (members (teams st ! ti))"
    and "30 < sc"
  shows "submit_cleanup_verification now rid email notes photos (Some sc) st =
           (\<lparr>success = False, message = ''Cleanup verification failed. Task continues.'',
             response_status = Some IN_PROGRESS, points_awarded = None,
             response_score = Some sc\<rparr>,
            st\<lparr>cleanups := (cleanups st)
                 [ci := (cleanups st ! ci)
                    \<lparr>verification_photos := photos, updated_at := now 0,
                     status := IN_PROGRESS,
                     cleanup_notes := notes @ failed_annotation sc\<rparr>]\<rparr>)"
  using assms
  by (simp add: submit_cleanup_verification_def Let_def)



lemma verify_cleanup_accepted:
  assumes "find_idx (\<lambda>c. report_id c = rid) (cleanups st) = Some ci"
    and "truthy (assigned_team (cleanups st ! ci))"
    and "find_idx (\<lambda>t. Some (team_id t) = assigned_team (cleanups st ! ci)) (teams st) = Some ti"
    and "email \<in> set (members (teams st ! ti))"
    and "uploads \<noteq> []" and "hd uploads \<noteq> []"
    and "avg_score (map an (map (\<lambda>f. sf (''verification_'' @ rid @ ''_'' @ f))
                                (filter (\<lambda>f. f \<noteq> []) uploads))) < 30"
  shows "fst (verify_cleanup now sf an rid email notes uploads st) = Accepted"
    and "status (cleanups (snd (verify_cleanup now sf an rid email notes uploads st)) ! ci) = CLEANED"
    and "team_status (teams (snd (verify_cleanup now sf an rid email notes uploads st)) ! ti) = ''available''"
    and "current_task (teams (snd (verify_cleanup now sf an rid email notes uploads st)) ! ti) = None"
proof -
  have ne: "filter (\<lambda>f. f \<noteq> []) uploads \<noteq> []"
    using assms(5,6) by (cases uploads) auto
  from find_idx_Some [OF assms(1)] have ci: "ci < length (cleanups st)" by simp
  from find_idx_Some [OF assms(3)] have ti: "ti < length (teams st)" by simp
  show "fst (verify_cleanup now sf an rid email notes uploads st) = Accepted"
    using assms ne by (simp add: verify_cleanup_def Let_def)
  show "status (cleanups (snd (verify_cleanup now sf an rid email notes uploads st)) ! ci) = CLEANED"
    using assms ne ci by (simp add: verify_cleanup_def Let_def)
  show "team_status (teams (snd (verify_cleanup now sf an rid email notes uploads st)) ! ti) = ''available''"
    using assms ne ti by (simp add: verify_cleanup_def Let_def)
  show "current_task (teams (snd (verify_cleanup now sf an rid email notes uploads st)) ! ti) = None"
    using assms ne ti by (simp add: verify_cleanup_def Let_def)
qed

lemma verify_cleanup_needs_work:
  assumes "find_idx (\<lambda>c. report_id c = rid) (cleanups st) = Some ci"
    and "truthy (assigned_team (cleanups st ! ci))"
    and "find_idx (\<lambda>t. Some (team_id t) = assigned_team (cleanups st ! ci)) (teams st) = Some ti"
    and "email \<in> set (members (teams st ! ti))"
    and "uploads \<noteq> []" and "hd uploads \<noteq> []"
    and "30 \<le> avg_score (map an (map (\<lambda>f. sf (''verification_'' @ rid @ ''_'' @ f))
                                (filter (\<lambda>f. f \<noteq> []) uploads)))"
  shows "verify_cleanup now sf an rid email notes uploads st =
           (Needs_work,
            st\<lparr>cleanups := (cleanups st)
                 [ci := (cleanups st ! ci)
                    \<lparr>verification_photos :=
                       map (\<lambda>f. sf (''verification_'' @ rid @ ''_'' @ f))
                         (filter (\<lambda>f. f \<noteq> []) uploads),
                     cleanup_notes := notes,
                     verification_analysis :=
                       Some (map an (map (\<lambda>f. sf (''verification_'' @ rid @ ''_'' @ f))
                                (filter (\<lambda>f. f \<noteq> []) uploads))),
                     cleanup_score :=
                       Some (avg_score (map an (map (\<lambda>f. sf (''verification_'' @ rid @ ''_'' @ f))
                                (filter (\<lambda>f. f \<noteq> []) uploads)))),
                     updated_at := now 0\<rparr>]\<rparr>)"
proof -
  have ne: "filter (\<lambda>f. f \<noteq> []) uploads \<noteq> []"
    using assms(5,6) by (cases uploads) auto
  show ?thesis
    using assms ne by (simp add: verify_cleanup_def Let_def)
qed

lemma verify_cleanup_rejections:
  assumes "find_idx (\<lambda>c. report_id c = rid) (cleanups st) = Some ci"
  shows "\<not> truthy (assigned_team (cleanups st ! ci)) \<Longrightarrow>
           verify_cleanup now sf an rid email notes uploads st =
             (Rejected ''No team assigned to this cleanup'', st)"
    and "truthy (assigned_team (cleanups st ! ci)) \<Longrightarrow>
         find_idx (\<lambda>t. Some (team_id t) = assigned_team (cleanups st ! ci)) (teams st) = Some ti \<Longrightarrow>
         email \<notin> set (members (teams st ! ti)) \<Longrightarrow>
           verify_cleanup now sf an rid email notes uploads st =
             (Rejected ''Email must be a member of the assigned cleanup team'', st)"
  using assms by (simp_all add: verify_cleanup_def)

text \<open>The sibling path at mean 30.\<close>

lemma verify_cleanup_mean_30:
  "verify_cleanup clock1 id scorer30 ''cleanup_1'' ''lead@example.org'' ''Beach cleared''
       [''after.jpg''] assigned_store =
     (Needs_work,
      assigned_store\<lparr>cleanups := (cleanups assigned_store)
        [0 := (cleanups assigned_store ! 0)
                 \<lparr>verification_photos := [''verification_cleanup_1_after.jpg''],
                  cleanup_notes := ''Beach cleared'',
                  verification_analysis := Some [scorer30 ''verification_cleanup_1_after.jpg''],
                  cleanup_score := Some 30,
                  updated_at := clock1 0\<rparr>]\<rparr>)"
  by (simp add: assigned_store_eq verify_cleanup_def truthy_def Let_def avg_score_def
      scorer30_def)

text \<open>
  Claim C1, at the mean score 30.  The claim has a verification with mean score 30 leave
  the task \<open>in_progress\<close> and the team \<open>busy\<close>.  \<^verbatim>\<open>submit_cleanup_verification\<close>
  tests \<^verbatim>\<open>cleanup_score <= 30\<close>: on an in-progress task whose team is busy, a member's
  submission with score 30 is answered with success, the task becomes \<open>cleaned\<close>, no
  rejection annotation is written, and the team is released.  (The route
  \<^verbatim>\<open>verify_cleanup\<close> tests \<^verbatim>\<open>avg_score < 30\<close>, see \<open>verify_cleanup_mean_30\<close>; above 30
  and below 30 both paths agree with the claim, see
  \<open>submit_cleanup_verification_rejected\<close> and \<open>submit_cleanup_verification_accepted\<close>.)
\<close>

theorem submit_cleanup_verification_score_30_closes_task:
  "status (cleanups assigned_store ! 0) = IN_PROGRESS \<and>
   team_status (teams assigned_store ! 0) = ''busy'' \<and>
   ''lead@example.org'' \<in> set (members (teams assigned_store ! 0)) \<and>
   success (fst (submit_cleanup_verification clock1 ''cleanup_1'' ''lead@example.org''
                   ''Beach cleared'' [''after.jpg''] (Some 30) assigned_store)) \<and>
   response_status (fst (submit_cleanup_verification clock1 ''cleanup_1'' ''lead@example.org''
                   ''Beach cleared'' [''after.jpg''] (Some 30) assigned_store)) = Some CLEANED \<and>
   status (cleanups (snd (submit_cleanup_verification clock1 ''cleanup_1'' ''lead@example.org''
                   ''Beach cleared'' [''after.jpg''] (Some 30) assigned_store)) ! 0) = CLEANED \<and>
   cleanup_notes (cleanups (snd (submit_cleanup_verification clock1 ''cleanup_1''
                   ''lead@example.org'' ''Beach cleared'' [''after.jpg''] (Some 30)
                   assigned_store)) ! 0) = ''Beach cleared'' \<and>
   team_status (teams (snd (submit_cleanup_verification clock1 ''cleanup_1''
                   ''lead@example.org'' ''Beach cleared'' [''after.jpg''] (Some 30)
                   assigned_store)) ! 0) = ''available'' \<and>
   current_task (teams (snd (submit_cleanup_verification clock1 ''cleanup_1''
                   ''lead@example.org'' ''Beach cleared'' [''after.jpg''] (Some 30)
                   assigned_store)) ! 0) = None"
  by (simp add: assigned_store_eq submit_cleanup_verification_def truthy_def Let_def
      free_up_team_def IN_PROGRESS_def CLEANED_def)

subsection \<open>Refused submissions\<close>

text \<open>
  Claim C2, as amended.  \<^verbatim>\<open>submit_cleanup_verification\<close> refuses a call whose task does
  not exist (``Cleanup report not found''), and a call on a task with an assigned team
  when no team has that identifier or the submitting identity is not among the members of
  the first team that has it (``Unauthorized: You are not assigned to this cleanup
  task''); a refused call answers with \<^verbatim>\<open>success: False\<close> and the message, and returns the
  collections of tasks and teams as they were.  A task without assigned team
  (\<^verbatim>\<open>None\<close> or the empty string) is not refused: the membership check stands under
  \<^verbatim>\<open>if cleanup["assigned_team"]\<close> (line 277) and is skipped, the photos of the
  submission and the time of the call are stored on the task, and a score below 30 closes
  it.

  The claim as written has such a call refused with no state change.  In the closing
  example of this subsection, on a pending task that no team was assigned to, a submission by
  an identity that belongs to no team is answered with success, stores its notes and
  closes the task.  (The route \<^verbatim>\<open>verify_cleanup\<close> does
  refuse a task without team, see \<open>verify_cleanup_rejections\<close>.)
\<close>

theorem submit_cleanup_verification_refusals:
  "((\<forall>c\<in>set (cleanups st). report_id c \<noteq> rid) \<longrightarrow>
      submit_cleanup_verification now rid email notes photos sc st =
        (\<lparr>success = False, message = ''Cleanup report not found'',
          response_status = None, points_awarded = None, response_score = None\<rparr>, st)) \<and>
   (ci < length (cleanups st) \<and> report_id (cleanups st ! ci) = rid \<and>
    (\<forall>j<ci. report_id (cleanups st ! j) \<noteq> rid) \<and>
    assigned_team (cleanups st ! ci) \<noteq> None \<and> assigned_team (cleanups st ! ci) \<noteq> Some [] \<and>
    ((\<forall>t\<in>set (teams st). Some (team_id t) \<noteq> assigned_team (cleanups st ! ci)) \<or>
     (\<exists>ti<length (teams st).
         Some (team_id (teams st ! ti)) = assigned_team (cleanups st ! ci) \<and>
         (\<forall>j<ti. Some (team_id (teams st ! j)) \<noteq> assigned_team (cleanups st ! ci)) \<and>
         email \<notin> set (members (teams st ! ti))))
    \<longrightarrow>
      submit_cleanup_verification now rid email notes photos sc st =
        (\<lparr>success = False,
          message = ''Unauthorized: You are not assigned to this cleanup task'',
          response_status = None, points_awarded = None, response_score = None\<rparr>, st)) \<and>
   (ci < length (cleanups st) \<and> report_id (cleanups st ! ci) = rid \<and>
    (\<forall>j<ci. report_id (cleanups st ! j) \<noteq> rid) \<and>
    (assigned_team (cleanups st ! ci) = None \<or> assigned_team (cleanups st ! ci) = Some [])
    \<longrightarrow>
      message (fst (submit_cleanup_verification now rid email notes photos sc st))
        \<noteq> ''Unauthorized: You are not assigned to this cleanup task'' \<and>
      message (fst (submit_cleanup_verification now rid email notes photos sc st))
        \<noteq> ''Cleanup report not found'' \<and>
      verification_photos
        (cleanups (snd (submit_cleanup_verification now rid email notes photos sc st)) ! ci)
        = photos \<and>
      updated_at
        (cleanups (snd (submit_cleanup_verification now rid email notes photos sc st)) ! ci)
        = now 0 \<and>
      (\<forall>s. sc = Some s \<and> s < 30 \<longrightarrow>
         status
           (cleanups (snd (submit_cleanup_verification now rid email notes photos sc st)) ! ci)
           = CLEANED))"
proof -
  have A: "((\<forall>c\<in>set (cleanups st). report_id c \<noteq> rid)) \<longrightarrow> submit_cleanup_verification now rid email notes photos sc st =
        (\<lparr>success = False, message = ''Cleanup report not found'',
          response_status = None, points_awarded = None, response_score = None\<rparr>, st)"
  proof (rule impI)
    assume "(\<forall>c\<in>set (cleanups st). report_id c \<noteq> rid)"
    then have "find_idx (\<lambda>c. report_id c = rid) (cleanups st) = None"
      by (simp add: find_idx_None)
    then show "submit_cleanup_verification now rid email notes photos sc st =
        (\<lparr>success = False, message = ''Cleanup report not found'',
          response_status = None, points_awarded = None, response_score = None\<rparr>, st)"
      by (simp add: submit_cleanup_verification_def)
  qed
  have B: "ci < length (cleanups st) \<and> report_id (cleanups st ! ci) = rid \<and>
    (\<forall>j<ci. report_id (cleanups st ! j) \<noteq> rid) \<and>
    assigned_team (cleanups st ! ci) \<noteq> None \<and> assigned_team (cleanups st ! ci) \<noteq> Some [] \<and>
    ((\<forall>t\<in>set (teams st). Some (team_id t) \<noteq> assigned_team (cleanups st ! ci)) \<or>
     (\<exists>ti<length (teams st).
         Some (team_id (teams st ! ti)) = assigned_team (cleanups st ! ci) \<and>
         (\<forall>j<ti. Some (team_id (teams st ! j)) \<noteq> assigned_team (cleanups st ! ci)) \<and>
         email \<notin> set (members (teams st ! ti)))) \<longrightarrow> submit_cleanup_verification now rid email notes photos sc st =
        (\<lparr>success = False,
          message = ''Unauthorized: You are not assigned to this cleanup task'',
          response_status = None, points_awarded = None, response_score = None\<rparr>, st)"
  proof (rule impI)
    assume a: "ci < length (cleanups st) \<and> report_id (cleanups st ! ci) = rid \<and>
    (\<forall>j<ci. report_id (cleanups st ! j) \<noteq> rid) \<and>
    assigned_team (cleanups st ! ci) \<noteq> None \<and> assigned_team (cleanups st ! ci) \<noteq> Some [] \<and>
    ((\<forall>t\<in>set (teams st). Some (team_id t) \<noteq> assigned_team (cleanups st ! ci)) \<or>
     (\<exists>ti<length (teams st).
         Some (team_id (teams st ! ti)) = assigned_team (cleanups st ! ci) \<and>
         (\<forall>j<ti. Some (team_id (teams st ! j)) \<noteq> assigned_team (cleanups st ! ci)) \<and>
         email \<notin> set (members (teams st ! ti))))"
  then have f: "find_idx (\<lambda>c. report_id c = rid) (cleanups st) = Some ci"
    by (intro find_idx_first_conj) simp
  from a have tr: "truthy (assigned_team (cleanups st ! ci))"
    by (auto simp: truthy_def split: option.splits)
  from a have "(\<forall>t\<in>set (teams st). Some (team_id t) \<noteq> assigned_team (cleanups st ! ci)) \<or>
     (\<exists>ti<length (teams st).
         Some (team_id (teams st ! ti)) = assigned_team (cleanups st ! ci) \<and>
         (\<forall>j<ti. Some (team_id (teams st ! j)) \<noteq> assigned_team (cleanups st ! ci)) \<and>
         email \<notin> set (members (teams st ! ti)))"
    by blast
  then have c: "case find_idx (\<lambda>t. Some (team_id t) = assigned_team (cleanups st ! ci)) (teams st) of
           None \<Rightarrow> True
         | Some ti \<Rightarrow> email \<notin> set (members (teams st ! ti))"
  proof (elim disjE exE conjE)
    assume "\<forall>t\<in>set (teams st). Some (team_id t) \<noteq> assigned_team (cleanups st ! ci)"
    then have "find_idx (\<lambda>t. Some (team_id t) = assigned_team (cleanups st ! ci)) (teams st) = None"
      by (simp add: find_idx_None)
    then show ?thesis by simp
  next
    fix ti
    assume t: "ti < length (teams st)"
      "Some (team_id (teams st ! ti)) = assigned_team (cleanups st ! ci)"
      "\<forall>j<ti. Some (team_id (teams st ! j)) \<noteq> assigned_team (cleanups st ! ci)"
      and m: "email \<notin> set (members (teams st ! ti))"
    from t have "find_idx (\<lambda>t. Some (team_id t) = assigned_team (cleanups st ! ci)) (teams st) = Some ti"
      by (intro find_idx_first_conj) simp
    with m show ?thesis by simp
  qed
    show "submit_cleanup_verification now rid email notes photos sc st =
        (\<lparr>success = False,
          message = ''Unauthorized: You are not assigned to this cleanup task'',
          response_status = None, points_awarded = None, response_score = None\<rparr>, st)"
      by (rule submit_cleanup_verification_unauthorized [OF f tr c])
  qed
  have C: "ci < length (cleanups st) \<and> report_id (cleanups st ! ci) = rid \<and>
    (\<forall>j<ci. report_id (cleanups st ! j) \<noteq> rid) \<and>
    (assigned_team (cleanups st ! ci) = None \<or> assigned_team (cleanups st ! ci) = Some []) \<longrightarrow> (message (fst (submit_cleanup_verification now rid email notes photos sc st))
        \<noteq> ''Unauthorized: You are not assigned to this cleanup task'' \<and>
      message (fst (submit_cleanup_verification now rid email notes photos sc st))
        \<noteq> ''Cleanup report not found'' \<and>
      verification_photos
        (cleanups (snd (submit_cleanup_verification now rid email notes photos sc st)) ! ci)
        = photos \<and>
      updated_at
        (cleanups (snd (submit_cleanup_verification now rid email notes photos sc st)) ! ci)
        = now 0 \<and>
      (\<forall>s. sc = Some s \<and> s < 30 \<longrightarrow>
         status
           (cleanups (snd (submit_cleanup_verification now rid email notes photos sc st)) ! ci)
           = CLEANED))"
  proof (rule impI)
    assume a: "ci < length (cleanups st) \<and> report_id (cleanups st ! ci) = rid \<and>
    (\<forall>j<ci. report_id (cleanups st ! j) \<noteq> rid) \<and>
    (assigned_team (cleanups st ! ci) = None \<or> assigned_team (cleanups st ! ci) = Some [])"
  then have f: "find_idx (\<lambda>c. report_id c = rid) (cleanups st) = Some ci"
    by (intro find_idx_first_conj) simp
  from a have ci: "ci < length (cleanups st)" by simp
  from a have tr: "\<not> truthy (assigned_team (cleanups st ! ci))"
    by (auto simp: truthy_def)
    show "message (fst (submit_cleanup_verification now rid email notes photos sc st))
        \<noteq> ''Unauthorized: You are not assigned to this cleanup task'' \<and>
      message (fst (submit_cleanup_verification now rid email notes photos sc st))
        \<noteq> ''Cleanup report not found'' \<and>
      verification_photos
        (cleanups (snd (submit_cleanup_verification now rid email notes photos sc st)) ! ci)
        = photos \<and>
      updated_at
        (cleanups (snd (submit_cleanup_verification now rid email notes photos sc st)) ! ci)
        = now 0 \<and>
      (\<forall>s. sc = Some s \<and> s < 30 \<longrightarrow>
         status
           (cleanups (snd (submit_cleanup_verification now rid email notes photos sc st)) ! ci)
           = CLEANED)"
      using f ci tr
      by (auto simp: submit_cleanup_verification_def Let_def split: option.splits)
  qed
  show ?thesis by (rule conjI [OF A conjI [OF B C]])
qed

theorem submit_cleanup_verification_refusals_witness:
  "submit_cleanup_verification clock1 ''cleanup_9'' ''lead@example.org'' ''Beach cleared''
       [''after.jpg''] (Some 10) assigned_store =
     (\<lparr>success = False, message = ''Cleanup report not found'',
       response_status = None, points_awarded = None, response_score = None\<rparr>,
      assigned_store) \<and>
   submit_cleanup_verification clock1 ''cleanup_1'' ''mallory@example.org'' ''Beach cleared''
       [''after.jpg''] (Some 10) assigned_store =
     (\<lparr>success = False,
       message = ''Unauthorized: You are not assigned to this cleanup task'',
       response_status = None, points_awarded = None, response_score = None\<rparr>,
      assigned_store) \<and>
   submit_cleanup_verification clock1 ''cleanup_1'' ''lead@example.org'' ''Beach cleared''
       [''after.jpg''] (Some 10) (assigned_store\<lparr>teams := []\<rparr>) =
     (\<lparr>success = False,
       message = ''Unauthorized: You are not assigned to this cleanup task'',
       response_status = None, points_awarded = None, response_score = None\<rparr>,
      assigned_store\<lparr>teams := []\<rparr>) \<and>
   message (fst (submit_cleanup_verification clock1 ''cleanup_1'' ''mallory@example.org''
                   ''Beach cleared'' [''after.jpg''] None unassigned_store))
     \<noteq> ''Unauthorized: You are not assigned to this cleanup task'' \<and>
   verification_photos
     (cleanups (snd (submit_cleanup_verification clock1 ''cleanup_1'' ''mallory@example.org''
                       ''Beach cleared'' [''after.jpg''] None unassigned_store)) ! 0)
     = [''after.jpg''] \<and>
   updated_at
     (cleanups (snd (submit_cleanup_verification clock1 ''cleanup_1'' ''mallory@example.org''
                       ''Beach cleared'' [''after.jpg''] None unassigned_store)) ! 0)
     = ''2024-05-02T18:30:00'' \<and>
   status
     (cleanups (snd (submit_cleanup_verification clock1 ''cleanup_1'' ''mallory@example.org''
                       ''Beach cleared'' [''after.jpg''] (Some 12) unassigned_store)) ! 0)
     = CLEANED"
proof -
  note t = submit_cleanup_verification_refusals
  note t1 = t [of assigned_store "''cleanup_9''" clock1 "''lead@example.org''"
      "''Beach cleared''" "[''after.jpg'']" "Some 10" 0]
  note t2 = t [of assigned_store "''cleanup_1''" clock1 "''mallory@example.org''"
      "''Beach cleared''" "[''after.jpg'']" "Some 10" 0]
  note t3 = t [of "assigned_store\<lparr>teams := []\<rparr>" "''cleanup_1''" clock1 "''lead@example.org''"
      "''Beach cleared''" "[''after.jpg'']" "Some 10" 0]
  note t4 = t [of unassigned_store "''cleanup_1''" clock1 "''mallory@example.org''"
      "''Beach cleared''" "[''after.jpg'']" None 0]
  note t5 = t [of unassigned_store "''cleanup_1''" clock1 "''mallory@example.org''"
      "''Beach cleared''" "[''after.jpg'']" "Some 12" 0]
  from t1 assigned_store_shape(8) have p1:
    "submit_cleanup_verification clock1 ''cleanup_9'' ''lead@example.org'' ''Beach cleared''
       [''after.jpg''] (Some 10) assigned_store =
     (\<lparr>success = False, message = ''Cleanup report not found'',
       response_status = None, points_awarded = None, response_score = None\<rparr>,
      assigned_store)"
    by blast
  have asg: "assigned_team (cleanups assigned_store ! 0) \<noteq> None"
    "assigned_team (cleanups assigned_store ! 0) \<noteq> Some []"
    by (simp_all add: assigned_store_shape)
  have nm: "\<exists>ti<length (teams assigned_store).
         Some (team_id (teams assigned_store ! ti)) = assigned_team (cleanups assigned_store ! 0) \<and>
         (\<forall>j<ti. Some (team_id (teams assigned_store ! j))
                   \<noteq> assigned_team (cleanups assigned_store ! 0)) \<and>
         ''mallory@example.org'' \<notin> set (members (teams assigned_store ! ti))"
    by (rule exI [of _ 0]) (simp add: assigned_store_shape)
  from t2 assigned_store_shape(1,2,3) asg nm have p2:
    "submit_cleanup_verification clock1 ''cleanup_1'' ''mallory@example.org'' ''Beach cleared''
       [''after.jpg''] (Some 10) assigned_store =
     (\<lparr>success = False,
       message = ''Unauthorized: You are not assigned to this cleanup task'',
       response_status = None, points_awarded = None, response_score = None\<rparr>,
      assigned_store)"
    by blast
  have s3: "0 < length (cleanups (assigned_store\<lparr>teams := []\<rparr>))"
    "report_id (cleanups (assigned_store\<lparr>teams := []\<rparr>) ! 0) = ''cleanup_1''"
    "\<forall>j<0. report_id (cleanups (assigned_store\<lparr>teams := []\<rparr>) ! j) \<noteq> ''cleanup_1''"
    "assigned_team (cleanups (assigned_store\<lparr>teams := []\<rparr>) ! 0) \<noteq> None"
    "assigned_team (cleanups (assigned_store\<lparr>teams := []\<rparr>) ! 0) \<noteq> Some []"
    "\<forall>t\<in>set (teams (assigned_store\<lparr>teams := []\<rparr>)).
        Some (team_id t) \<noteq> assigned_team (cleanups (assigned_store\<lparr>teams := []\<rparr>) ! 0)"
    by (simp_all add: assigned_store_eq)
  from t3 s3 have p3:
    "submit_cleanup_verification clock1 ''cleanup_1'' ''lead@example.org'' ''Beach cleared''
       [''after.jpg''] (Some 10) (assigned_store\<lparr>teams := []\<rparr>) =
     (\<lparr>success = False,
       message = ''Unauthorized: You are not assigned to this cleanup task'',
       response_status = None, points_awarded = None, response_score = None\<rparr>,
      assigned_store\<lparr>teams := []\<rparr>)"
    by blast
  from t4 unassigned_store_shape(1,2,3,4) have p4:
    "message (fst (submit_cleanup_verification clock1 ''cleanup_1'' ''mallory@example.org''
                   ''Beach cleared'' [''after.jpg''] None unassigned_store))
     \<noteq> ''Unauthorized: You are not assigned to this cleanup task''"
    and p5: "verification_photos
     (cleanups (snd (submit_cleanup_verification clock1 ''cleanup_1'' ''mallory@example.org''
                       ''Beach cleared'' [''after.jpg''] None unassigned_store)) ! 0)
     = [''after.jpg'']"
    and "updated_at
     (cleanups (snd (submit_cleanup_verification clock1 ''cleanup_1'' ''mallory@example.org''
                       ''Beach cleared'' [''after.jpg''] None unassigned_store)) ! 0)
     = clock1 0"
    by blast+
  then have p6: "updated_at
     (cleanups (snd (submit_cleanup_verification clock1 ''cleanup_1'' ''mallory@example.org''
                       ''Beach cleared'' [''after.jpg''] None unassigned_store)) ! 0)
     = ''2024-05-02T18:30:00''"
    by (simp only: clock1_vals)
  have lt: "(12::int) < 30" by simp
  from t5 unassigned_store_shape(1,2,3,4) lt have p7: "status
     (cleanups (snd (submit_cleanup_verification clock1 ''cleanup_1'' ''mallory@example.org''
                       ''Beach cleared'' [''after.jpg''] (Some 12) unassigned_store)) ! 0)
     = CLEANED"
    by blast
  from p1 p2 p3 p4 p5 p6 p7 show ?thesis by (intro conjI)
qed

subsection \<open>Stored verification photos\<close>

text \<open>
  Claim C10.  For a task that exists (\<open>ci\<close> is the first position with the given
  identifier), every verification submission that passes the membership check stores
  exactly the photo list it was given, whatever the score and whatever was stored
  before: \<^verbatim>\<open>submit_cleanup_verification\<close> assigns the submitted list to
  \<^verbatim>\<open>verification_photos\<close> with no score, with an accepted score and with a refused score
  alike, and the route \<^verbatim>\<open>verify_cleanup\<close> assigns the list of the stored upload names on
  its accepted and on its needs-work path alike.  \<^verbatim>\<open>update_cleanup_status\<close> extends the
  stored list instead.
\<close>

theorem verification_photos_replaced:
  assumes "ci < length (cleanups st)"
    and "report_id (cleanups st ! ci) = rid"
    and "\<forall>j<ci. report_id (cleanups st ! j) \<noteq> rid"
  shows
    "(assigned_team (cleanups st ! ci) = None \<or> assigned_team (cleanups st ! ci) = Some [] \<or>
      (\<exists>ti<length (teams st).
          Some (team_id (teams st ! ti)) = assigned_team (cleanups st ! ci) \<and>
          (\<forall>j<ti. Some (team_id (teams st ! j)) \<noteq> assigned_team (cleanups st ! ci)) \<and>
          email \<in> set (members (teams st ! ti)))
      \<longrightarrow>
      verification_photos
        (cleanups (snd (submit_cleanup_verification now rid email notes photos sc st)) ! ci)
        = photos) \<and>
     (assigned_team (cleanups st ! ci) \<noteq> None \<and> assigned_team (cleanups st ! ci) \<noteq> Some [] \<and>
      (\<exists>ti<length (teams st).
          Some (team_id (teams st ! ti)) = assigned_team (cleanups st ! ci) \<and>
          (\<forall>j<ti. Some (team_id (teams st ! j)) \<noteq> assigned_team (cleanups st ! ci)) \<and>
          email \<in> set (members (teams st ! ti))) \<and>
      uploads \<noteq> [] \<and> hd uploads \<noteq> []
      \<longrightarrow>
      verification_photos
        (cleanups (snd (verify_cleanup now sf an rid email notes uploads st)) ! ci)
        = map (\<lambda>f. sf (''verification_'' @ rid @ ''_'' @ f)) (filter (\<lambda>f. f \<noteq> []) uploads)) \<and>
     verification_photos
        (cleanups (snd (update_cleanup_status now rid new_status notes (Some photos) st)) ! ci)
        = verification_photos (cleanups st ! ci) @ photos"
proof -
  have f: "find_idx (\<lambda>c. report_id c = rid) (cleanups st) = Some ci"
    using assms by (intro find_idx_first_conj) simp
  note ci = assms(1)
  have 1: "assigned_team (cleanups st ! ci) = None \<or> assigned_team (cleanups st ! ci) = Some [] \<or>
      (\<exists>ti<length (teams st).
          Some (team_id (teams st ! ti)) = assigned_team (cleanups st ! ci) \<and>
          (\<forall>j<ti. Some (team_id (teams st ! j)) \<noteq> assigned_team (cleanups st ! ci)) \<and>
          email \<in> set (members (teams st ! ti)))
      \<longrightarrow>
      verification_photos
        (cleanups (snd (submit_cleanup_verification now rid email notes photos sc st)) ! ci)
        = photos"
  proof
    assume "assigned_team (cleanups st ! ci) = None \<or> assigned_team (cleanups st ! ci) = Some [] \<or>
      (\<exists>ti<length (teams st).
          Some (team_id (teams st ! ti)) = assigned_team (cleanups st ! ci) \<and>
          (\<forall>j<ti. Some (team_id (teams st ! j)) \<noteq> assigned_team (cleanups st ! ci)) \<and>
          email \<in> set (members (teams st ! ti)))"
    then have auth: "\<not> (truthy (assigned_team (cleanups st ! ci)) \<and>
             (case find_idx (\<lambda>t. Some (team_id t) = assigned_team (cleanups st ! ci)) (teams st) of
                None \<Rightarrow> True
              | Some ti \<Rightarrow> email \<notin> set (members (teams st ! ti))))"
    proof (elim disjE exE conjE)
      fix ti
      assume "ti < length (teams st)"
        "Some (team_id (teams st ! ti)) = assigned_team (cleanups st ! ci)"
        "\<forall>j<ti. Some (team_id (teams st ! j)) \<noteq> assigned_team (cleanups st ! ci)"
        "email \<in> set (members (teams st ! ti))"
      moreover from this
      have "find_idx (\<lambda>t. Some (team_id t) = assigned_team (cleanups st ! ci)) (teams st) = Some ti"
        by (intro find_idx_first_conj) simp
      ultimately show ?thesis by simp
    qed (simp_all add: truthy_def)
    show "verification_photos
        (cleanups (snd (submit_cleanup_verification now rid email notes photos sc st)) ! ci)
        = photos"
      using f ci auth
      by (auto simp: submit_cleanup_verification_def Let_def split: option.splits)
  qed
  have 2: "assigned_team (cleanups st ! ci) \<noteq> None \<and> assigned_team (cleanups st ! ci) \<noteq> Some [] \<and>
      (\<exists>ti<length (teams st).
          Some (team_id (teams st ! ti)) = assigned_team (cleanups st ! ci) \<and>
          (\<forall>j<ti. Some (team_id (teams st ! j)) \<noteq> assigned_team (cleanups st ! ci)) \<and>
          email \<in> set (members (teams st ! ti))) \<and>
      uploads \<noteq> [] \<and> hd uploads \<noteq> []
      \<longrightarrow>
      verification_photos
        (cleanups (snd (verify_cleanup now sf an rid email notes uploads st)) ! ci)
        = map (\<lambda>f. sf (''verification_'' @ rid @ ''_'' @ f)) (filter (\<lambda>f. f \<noteq> []) uploads)"
  proof (intro impI, elim conjE exE)
    fix ti
    assume a: "assigned_team (cleanups st ! ci) \<noteq> None" "assigned_team (cleanups st ! ci) \<noteq> Some []"
      and t: "ti < length (teams st)"
        "Some (team_id (teams st ! ti)) = assigned_team (cleanups st ! ci)"
        "\<forall>j<ti. Some (team_id (teams st ! j)) \<noteq> assigned_team (cleanups st ! ci)"
      and m: "email \<in> set (members (teams st ! ti))"
      and u: "uploads \<noteq> []" "hd uploads \<noteq> []"
    from a have tr: "truthy (assigned_team (cleanups st ! ci))"
      by (auto simp: truthy_def split: option.splits)
    from t have ft: "find_idx (\<lambda>t. Some (team_id t) = assigned_team (cleanups st ! ci)) (teams st) = Some ti"
      by (intro find_idx_first_conj) simp
    have ne: "filter (\<lambda>f. f \<noteq> []) uploads \<noteq> []"
      using u by (cases uploads) auto
    show "verification_photos
        (cleanups (snd (verify_cleanup now sf an rid email notes uploads st)) ! ci)
        = map (\<lambda>f. sf (''verification_'' @ rid @ ''_'' @ f)) (filter (\<lambda>f. f \<noteq> []) uploads)"
      using f ft tr m u ne ci
      by (simp add: verify_cleanup_def Let_def)
  qed
  have 3: "verification_photos
        (cleanups (snd (update_cleanup_status now rid new_status notes (Some photos) st)) ! ci)
        = verification_photos (cleanups st ! ci) @ photos"
    using f ci
    by (simp add: update_cleanup_status_def Let_def award_reporter_points_def)
  from 1 2 3 show ?thesis by (intro conjI)
qed


theorem verification_photos_replaced_witness:
  "verification_photos (cleanups resubmit_store ! 0) = [''first.jpg''] \<and>
   verification_photos
     (cleanups (snd (submit_cleanup_verification clock1 ''cleanup_1'' ''lead@example.org''
                       ''second pass'' [''second.jpg''] None resubmit_store)) ! 0)
     = [''second.jpg''] \<and>
   verification_photos
     (cleanups (snd (submit_cleanup_verification clock1 ''cleanup_1'' ''lead@example.org''
                       ''second pass'' [''second.jpg''] (Some 31) resubmit_store)) ! 0)
     = [''second.jpg''] \<and>
   verification_photos
     (cleanups (snd (submit_cleanup_verification clock1 ''cleanup_1'' ''lead@example.org''
                       ''second pass'' [''second.jpg''] (Some 18) resubmit_store)) ! 0)
     = [''second.jpg''] \<and>
   fst (verify_cleanup clock1 id scorer45 ''cleanup_1'' ''lead@example.org''
          ''second pass'' [''second.jpg''] resubmit_store) = Needs_work \<and>
   verification_photos
     (cleanups (snd (verify_cleanup clock1 id scorer45 ''cleanup_1'' ''lead@example.org''
                       ''second pass'' [''second.jpg''] resubmit_store)) ! 0)
     = [''verification_cleanup_1_second.jpg''] \<and>
   fst (verify_cleanup clock1 id scorer18 ''cleanup_1'' ''lead@example.org''
          ''second pass'' [''second.jpg''] resubmit_store) = Accepted \<and>
   verification_photos
     (cleanups (snd (verify_cleanup clock1 id scorer18 ''cleanup_1'' ''lead@example.org''
                       ''second pass'' [''second.jpg''] resubmit_store)) ! 0)
     = [''verification_cleanup_1_second.jpg''] \<and>
   verification_photos
     (cleanups (snd (update_cleanup_status clock1 ''cleanup_1'' IN_PROGRESS ''second pass''
                       (Some [''second.jpg'']) resubmit_store)) ! 0)
     = [''first.jpg'', ''second.jpg'']"
proof -
  have team: "\<exists>ti<length (teams resubmit_store).
          Some (team_id (teams resubmit_store ! ti)) = assigned_team (cleanups resubmit_store ! 0) \<and>
          (\<forall>j<ti. Some (team_id (teams resubmit_store ! j))
                    \<noteq> assigned_team (cleanups resubmit_store ! 0)) \<and>
          ''lead@example.org'' \<in> set (members (teams resubmit_store ! ti))"
    by (rule exI [of _ 0]) (simp add: resubmit_store_shape)
  have asg: "assigned_team (cleanups resubmit_store ! 0) \<noteq> None"
    "assigned_team (cleanups resubmit_store ! 0) \<noteq> Some []"
    by (simp_all add: resubmit_store_shape)
  have up: "[''second.jpg''] \<noteq> []" "hd [''second.jpg''] \<noteq> []" by simp_all
  have e: "map (\<lambda>f. id (''verification_'' @ ''cleanup_1'' @ ''_'' @ f))
             (filter (\<lambda>f. f \<noteq> []) [''second.jpg'']) = [''verification_cleanup_1_second.jpg'']"
    by simp
  note t = verification_photos_replaced [OF resubmit_store_shape(1,2,3)]
  note tn = t [of "''lead@example.org''" clock1 "''second pass''" "[''second.jpg'']" None
      "[''second.jpg'']" id scorer45 IN_PROGRESS]
  note t31 = t [of "''lead@example.org''" clock1 "''second pass''" "[''second.jpg'']" "Some 31"
      "[''second.jpg'']" id scorer18 IN_PROGRESS]
  note t18 = t [of "''lead@example.org''" clock1 "''second pass''" "[''second.jpg'']" "Some 18"
      "[''second.jpg'']" id scorer18 IN_PROGRESS]
  from tn team have p1: "verification_photos
     (cleanups (snd (submit_cleanup_verification clock1 ''cleanup_1'' ''lead@example.org''
                       ''second pass'' [''second.jpg''] None resubmit_store)) ! 0)
     = [''second.jpg'']"
    by blast
  from t31 team have p2: "verification_photos
     (cleanups (snd (submit_cleanup_verification clock1 ''cleanup_1'' ''lead@example.org''
                       ''second pass'' [''second.jpg''] (Some 31) resubmit_store)) ! 0)
     = [''second.jpg'']"
    by blast
  from t18 team have p3: "verification_photos
     (cleanups (snd (submit_cleanup_verification clock1 ''cleanup_1'' ''lead@example.org''
                       ''second pass'' [''second.jpg''] (Some 18) resubmit_store)) ! 0)
     = [''second.jpg'']"
    by blast
  from tn team asg up have "verification_photos
     (cleanups (snd (verify_cleanup clock1 id scorer45 ''cleanup_1'' ''lead@example.org''
                       ''second pass'' [''second.jpg''] resubmit_store)) ! 0)
     = map (\<lambda>f. id (''verification_'' @ ''cleanup_1'' @ ''_'' @ f))
         (filter (\<lambda>f. f \<noteq> []) [''second.jpg''])"
    by blast
  then have p4: "verification_photos
     (cleanups (snd (verify_cleanup clock1 id scorer45 ''cleanup_1'' ''lead@example.org''
                       ''second pass'' [''second.jpg''] resubmit_store)) ! 0)
     = [''verification_cleanup_1_second.jpg'']"
    unfolding e .
  from t31 team asg up have "verification_photos
     (cleanups (snd (verify_cleanup clock1 id scorer18 ''cleanup_1'' ''lead@example.org''
                       ''second pass'' [''second.jpg''] resubmit_store)) ! 0)
     = map (\<lambda>f. id (''verification_'' @ ''cleanup_1'' @ ''_'' @ f))
         (filter (\<lambda>f. f \<noteq> []) [''second.jpg''])"
    by blast
  then have p5: "verification_photos
     (cleanups (snd (verify_cleanup clock1 id scorer18 ''cleanup_1'' ''lead@example.org''
                       ''second pass'' [''second.jpg''] resubmit_store)) ! 0)
     = [''verification_cleanup_1_second.jpg'']"
    unfolding e .
  from tn have "verification_photos
     (cleanups (snd (update_cleanup_status clock1 ''cleanup_1'' IN_PROGRESS ''second pass''
                       (Some [''second.jpg'']) resubmit_store)) ! 0)
     = verification_photos (cleanups resubmit_store ! 0) @ [''second.jpg'']"
    by blast
  then have p6: "verification_photos
     (cleanups (snd (update_cleanup_status clock1 ''cleanup_1'' IN_PROGRESS ''second pass''
                       (Some [''second.jpg'']) resubmit_store)) ! 0)
     = [''first.jpg'', ''second.jpg'']"
    by (simp add: resubmit_store_task(2))
  have r45: "fst (verify_cleanup clock1 id scorer45 ''cleanup_1'' ''lead@example.org''
          ''second pass'' [''second.jpg''] resubmit_store) = Needs_work"
    by (simp add: resubmit_store_eq assigned_store_eq verify_cleanup_def truthy_def Let_def
        avg_score_def scorer45_def)
  have r18: "fst (verify_cleanup clock1 id scorer18 ''cleanup_1'' ''lead@example.org''
          ''second pass'' [''second.jpg''] resubmit_store) = Accepted"
    by (simp add: resubmit_store_eq assigned_store_eq verify_cleanup_def truthy_def Let_def
        avg_score_def scorer18_def)
  from resubmit_store_task(2) p1 p2 p3 r45 p4 r18 p5 p6 show ?thesis by (intro conjI)
qed

section \<open>The status update\<close>

lemma status_distinct:
  "IN_PROGRESS \<noteq> CLEANED" "CLEANED \<noteq> IN_PROGRESS" "VERIFIED \<noteq> CLEANED" "CLEANED \<noteq> VERIFIED"
  "PENDING \<noteq> CLEANED" "CLEANED \<noteq> PENDING" "IN_PROGRESS \<noteq> VERIFIED" "VERIFIED \<noteq> IN_PROGRESS"
  "PENDING \<noteq> IN_PROGRESS" "IN_PROGRESS \<noteq> PENDING" "PENDING \<noteq> VERIFIED" "VERIFIED \<noteq> PENDING"
  by (simp_all add: IN_PROGRESS_def CLEANED_def VERIFIED_def PENDING_def)

lemma update_cleanup_status_not_found:
  "find_idx (\<lambda>c. report_id c = rid) (cleanups st) = None \<Longrightarrow>
     update_cleanup_status now rid new_status notes photos st = (False, st)"
  by (simp add: update_cleanup_status_def)

lemma update_cleanup_status_task:
  assumes "find_idx (\<lambda>c. report_id c = rid) (cleanups st) = Some ci"
  shows "fst (update_cleanup_status now rid new_status notes photos st)"
    and "length (cleanups (snd (update_cleanup_status now rid new_status notes photos st)))
           = length (cleanups st)"
    and "status (cleanups (snd (update_cleanup_status now rid new_status notes photos st)) ! ci)
           = new_status"
    and "cleanup_notes (cleanups (snd (update_cleanup_status now rid new_status notes photos st)) ! ci)
           = notes"
    and "verification_photos
           (cleanups (snd (update_cleanup_status now rid new_status notes photos st)) ! ci)
           = verification_photos (cleanups st ! ci) @ (case photos of None \<Rightarrow> [] | Some ps \<Rightarrow> ps)"
    and "\<forall>j<length (cleanups st). j \<noteq> ci \<longrightarrow>
           cleanups (snd (update_cleanup_status now rid new_status notes photos st)) ! j
             = cleanups st ! j"
proof -
  from find_idx_Some [OF assms] have ci: "ci < length (cleanups st)" by simp
  show "fst (update_cleanup_status now rid new_status notes photos st)"
    using assms by (simp add: update_cleanup_status_def Let_def)
  show "length (cleanups (snd (update_cleanup_status now rid new_status notes photos st)))
           = length (cleanups st)"
    using assms by (simp add: update_cleanup_status_def Let_def award_reporter_points_def)
  show "status (cleanups (snd (update_cleanup_status now rid new_status notes photos st)) ! ci)
           = new_status"
    using assms ci
    by (simp add: update_cleanup_status_def Let_def award_reporter_points_def split: option.splits)
  show "cleanup_notes (cleanups (snd (update_cleanup_status now rid new_status notes photos st)) ! ci)
           = notes"
    using assms ci
    by (simp add: update_cleanup_status_def Let_def award_reporter_points_def split: option.splits)
  show "verification_photos
           (cleanups (snd (update_cleanup_status now rid new_status notes photos st)) ! ci)
           = verification_photos (cleanups st ! ci) @ (case photos of None \<Rightarrow> [] | Some ps \<Rightarrow> ps)"
    using assms ci
    by (simp add: update_cleanup_status_def Let_def award_reporter_points_def split: option.splits)
  show "\<forall>j<length (cleanups st). j \<noteq> ci \<longrightarrow>
           cleanups (snd (update_cleanup_status now rid new_status notes photos st)) ! j
             = cleanups st ! j"
    using assms ci
    by (simp add: update_cleanup_status_def Let_def award_reporter_points_def)
qed








section \<open>Entry actions of the status \<open>cleaned\<close>\<close>




section \<open>The status update accepts any target status\<close>

text \<open>
  Claim C7, as amended.  For an existing task, \<^verbatim>\<open>update_cleanup_status\<close> returns
  \<^verbatim>\<open>True\<close> for every target status, every notes string and every photo list, without
  looking at the current status; it sets the status to the given value and appends the
  given photos to the stored photo list.  The task's notes become the given notes: the
  notes stored before are overwritten, not kept.
\<close>

theorem update_cleanup_status_sets_fields:
  assumes "find_idx (\<lambda>c. report_id c = rid) (cleanups st) = Some ci"
  shows "fst (update_cleanup_status now rid new_status notes photos st) \<and>
         status (cleanups (snd (update_cleanup_status now rid new_status notes photos st)) ! ci)
           = new_status \<and>
         verification_photos
           (cleanups (snd (update_cleanup_status now rid new_status notes photos st)) ! ci)
           = verification_photos (cleanups st ! ci) @ (case photos of None \<Rightarrow> [] | Some ps \<Rightarrow> ps) \<and>
         cleanup_notes
           (cleanups (snd (update_cleanup_status now rid new_status notes photos st)) ! ci)
           = notes"
  by (simp add: update_cleanup_status_task(1,3,4,5) [OF assms])

theorem update_cleanup_status_sets_fields_witness:
  "find_idx (\<lambda>c. report_id c = ''cleanup_1'') (cleanups resubmit_store) = Some 0 \<and>
   status (cleanups resubmit_store ! 0) = IN_PROGRESS \<and>
   fst (update_cleanup_status clock1 ''cleanup_1'' PENDING ''back to the queue''
          (Some [''second.jpg'']) resubmit_store) \<and>
   status (cleanups (snd (update_cleanup_status clock1 ''cleanup_1'' PENDING
          ''back to the queue'' (Some [''second.jpg'']) resubmit_store)) ! 0) = PENDING \<and>
   verification_photos (cleanups (snd (update_cleanup_status clock1 ''cleanup_1'' PENDING
          ''back to the queue'' (Some [''second.jpg'']) resubmit_store)) ! 0)
     = [''first.jpg'', ''second.jpg''] \<and>
   cleanup_notes (cleanups (snd (update_cleanup_status clock1 ''cleanup_1'' PENDING
          ''back to the queue'' (Some [''second.jpg'']) resubmit_store)) ! 0)
     = ''back to the queue''"
proof -
  have s: "status (cleanups resubmit_store ! 0) = IN_PROGRESS"
    by (simp add: resubmit_store_eq)
  from update_cleanup_status_sets_fields [OF resubmit_store_task(1),
      of clock1 PENDING "''back to the queue''" "Some [''second.jpg'']"]
    resubmit_store_task s
  show ?thesis by simp
qed

theorem update_cleanup_status_discards_notes:
  "cleanup_notes (cleanups resubmit_store ! 0) = ''first pass'' @ failed_annotation 45 \<and>
   cleanup_notes (cleanups (snd (update_cleanup_status clock1 ''cleanup_1'' IN_PROGRESS
       ''second pass'' None resubmit_store)) ! 0) = ''second pass'' \<and>
   cleanup_notes (cleanups (snd (update_cleanup_status clock1 ''cleanup_1'' IN_PROGRESS
       ''second pass'' None resubmit_store)) ! 0)
     \<noteq> cleanup_notes (cleanups resubmit_store ! 0) @ ''second pass''"
  by (simp add: resubmit_store_eq assigned_store_eq update_cleanup_status_def
      truthy_def Let_def status_distinct)

section \<open>Repeating a status update\<close>

lemma update_cleanup_status_not_cleaned:
  assumes "find_idx (\<lambda>c. report_id c = rid) (cleanups st) = Some ci"
    and "new_status \<noteq> CLEANED"
  shows "snd (update_cleanup_status now rid new_status notes None st) =
           st\<lparr>cleanups := (cleanups st)
                [ci := (cleanups st ! ci)
                   \<lparr>status := new_status, cleanup_notes := notes, updated_at := now 0,
                    start_date :=
                      (if new_status = IN_PROGRESS \<and> \<not> truthy (start_date (cleanups st ! ci))
                       then Some (now 1) else start_date (cleanups st ! ci))\<rparr>]\<rparr>"
  using assms
  by (simp add: update_cleanup_status_def Let_def award_reporter_points_def)

text \<open>
  Claim C8, as amended.  For an existing task and a target status other than \<open>cleaned\<close>,
  a second \<^verbatim>\<open>update_cleanup_status\<close> with the same status, the same notes (the empty notes
  in particular) and no photos changes nothing but the task's \<^verbatim>\<open>updated_at\<close>, which
  takes the second call's clock reading; a \<^verbatim>\<open>start_date\<close> set by the first call is
  kept.  (Clock readings are non-empty strings.)
\<close>

theorem update_cleanup_status_twice:
  assumes "find_idx (\<lambda>c. report_id c = rid) (cleanups st) = Some ci"
    and "new_status \<noteq> CLEANED"
    and "now1 1 \<noteq> []"
  shows "snd (update_cleanup_status now2 rid new_status notes None
                (snd (update_cleanup_status now1 rid new_status notes None st))) =
         (snd (update_cleanup_status now1 rid new_status notes None st))
           \<lparr>cleanups :=
              (cleanups (snd (update_cleanup_status now1 rid new_status notes None st)))
                [ci := (cleanups (snd (update_cleanup_status now1 rid new_status notes None st)) ! ci)
                         \<lparr>updated_at := now2 0\<rparr>]\<rparr>"
proof -
  from find_idx_Some [OF assms(1)]
  have ci: "ci < length (cleanups st)" and rid: "report_id (cleanups st ! ci) = rid" by simp_all
  define c1 where "c1 = (cleanups st ! ci)
                   \<lparr>status := new_status, cleanup_notes := notes, updated_at := now1 0,
                    start_date :=
                      (if new_status = IN_PROGRESS \<and> \<not> truthy (start_date (cleanups st ! ci))
                       then Some (now1 1) else start_date (cleanups st ! ci))\<rparr>"
  define st1 where "st1 = st\<lparr>cleanups := (cleanups st)[ci := c1]\<rparr>"
  have first: "snd (update_cleanup_status now1 rid new_status notes None st) = st1"
    unfolding st1_def c1_def by (rule update_cleanup_status_not_cleaned [OF assms(1,2)])
  have "report_id c1 = rid" using rid by (simp add: c1_def)
  then have f1: "find_idx (\<lambda>c. report_id c = rid) (cleanups st1) = Some ci"
    unfolding st1_def using find_idx_update [OF assms(1), of c1] by simp
  have at: "cleanups st1 ! ci = c1" using ci by (simp add: st1_def)
  have started: "new_status = IN_PROGRESS \<Longrightarrow> truthy (start_date c1)"
    using assms(3) by (simp add: c1_def truthy_def)
  have second: "snd (update_cleanup_status now2 rid new_status notes None st1) =
           st1\<lparr>cleanups := (cleanups st1)[ci := c1\<lparr>updated_at := now2 0\<rparr>]\<rparr>"
    unfolding update_cleanup_status_not_cleaned [OF f1 assms(2)] at
    using started by (auto simp: c1_def intro!: arg_cong [where f = "\<lambda>c. st1\<lparr>cleanups := (cleanups st1)[ci := c]\<rparr>"] cleanup.equality)
  show ?thesis unfolding first using second at by simp
qed

theorem update_cleanup_status_twice_witness:
  "find_idx (\<lambda>c. report_id c = ''cleanup_1'') (cleanups assigned_store) = Some 0 \<and>
   IN_PROGRESS \<noteq> CLEANED \<and> clock0 1 \<noteq> [] \<and>
   start_date (cleanups assigned_store ! 0) = None \<and>
   start_date (cleanups (snd (update_cleanup_status clock1 ''cleanup_1'' IN_PROGRESS [] None
      (snd (update_cleanup_status clock0 ''cleanup_1'' IN_PROGRESS [] None assigned_store)))) ! 0)
     = Some (clock0 1) \<and>
   updated_at (cleanups (snd (update_cleanup_status clock1 ''cleanup_1'' IN_PROGRESS [] None
      (snd (update_cleanup_status clock0 ''cleanup_1'' IN_PROGRESS [] None assigned_store)))) ! 0)
     = clock1 0"
proof -
  have h3: "clock0 1 \<noteq> []" by (simp add: clock0_def)
  have s: "start_date (cleanups assigned_store ! 0) = None"
    by (simp add: assigned_store_eq)
  have once: "start_date (cleanups (snd (update_cleanup_status clock0 ''cleanup_1''
      IN_PROGRESS [] None assigned_store)) ! 0) = Some (clock0 1)"
    "length (cleanups (snd (update_cleanup_status clock0 ''cleanup_1''
      IN_PROGRESS [] None assigned_store))) = 1"
    by (simp_all add: assigned_store_eq update_cleanup_status_def truthy_def Let_def
        status_distinct)
  note t = update_cleanup_status_twice [of "''cleanup_1''" assigned_store 0 IN_PROGRESS
      clock0 clock1 "[]", OF assigned_store_task(1) status_distinct(1) h3]
  have a: "start_date (cleanups (snd (update_cleanup_status clock1 ''cleanup_1'' IN_PROGRESS [] None
      (snd (update_cleanup_status clock0 ''cleanup_1'' IN_PROGRESS [] None assigned_store)))) ! 0)
     = Some (clock0 1)"
    unfolding t using once by simp
  have b: "updated_at (cleanups (snd (update_cleanup_status clock1 ''cleanup_1'' IN_PROGRESS [] None
      (snd (update_cleanup_status clock0 ''cleanup_1'' IN_PROGRESS [] None assigned_store)))) ! 0)
     = clock1 0"
    unfolding t using once by simp
  from a b h3 s assigned_store_task(1) status_distinct(1) show ?thesis by blast
qed

theorem update_cleanup_status_twice_cleaned:
  "completion_date (cleanups (snd (update_cleanup_status clock0 ''cleanup_1'' CLEANED [] None
      assigned_store)) ! 0) = Some ''2024-05-01T10:00:01'' \<and>
   total_cleanups (teams (snd (update_cleanup_status clock0 ''cleanup_1'' CLEANED [] None
      assigned_store)) ! 0) = 1 \<and>
   total_points (teams (snd (update_cleanup_status clock0 ''cleanup_1'' CLEANED [] None
      assigned_store)) ! 0) = 33 \<and>
   completion_date (cleanups (snd (update_cleanup_status clock1 ''cleanup_1'' CLEANED [] None
      (snd (update_cleanup_status clock0 ''cleanup_1'' CLEANED [] None assigned_store)))) ! 0)
     = Some ''2024-05-02T18:30:01'' \<and>
   total_cleanups (teams (snd (update_cleanup_status clock1 ''cleanup_1'' CLEANED [] None
      (snd (update_cleanup_status clock0 ''cleanup_1'' CLEANED [] None assigned_store)))) ! 0)
     = 2 \<and>
   total_points (teams (snd (update_cleanup_status clock1 ''cleanup_1'' CLEANED [] None
      (snd (update_cleanup_status clock0 ''cleanup_1'' CLEANED [] None assigned_store)))) ! 0)
     = 66"
  by (simp add: assigned_store_eq update_cleanup_status_def truthy_def Let_def status_distinct
      free_up_team_def calculate_cleanup_points_def report82_score clock0_def clock1_def)

section \<open>Completion dates of cleaned tasks\<close>

lemma all_set_update:
  "\<forall>x\<in>set xs. P x \<Longrightarrow> P v \<Longrightarrow> \<forall>x\<in>set (xs[i := v]). P x"
  using set_update_subset_insert [of xs i v] by auto

lemma task_invariant_auto_assign_team:
  assumes "\<forall>c\<in>set (cleanups st). task_invariant c"
  shows "\<forall>c\<in>set (cleanups (snd (auto_assign_team now rid st))). task_invariant c"
  apply (simp add: auto_assign_team_def Let_def split: option.splits list.splits)
  apply (intro conjI impI allI all_set_update assms)
  apply (simp_all add: task_invariant_def status_distinct)
  done

lemma task_invariant_create_cleanup_report:
  assumes "\<forall>c\<in>set (cleanups st). task_invariant c"
  shows "\<forall>c\<in>set (cleanups (snd (create_cleanup_report now rid pr st))). task_invariant c"
proof -
  have "\<forall>c\<in>set (cleanups (st\<lparr>cleanups := cleanups st @ [new_cleanup now rid pr]\<rparr>)). task_invariant c"
    using assms by (auto simp: task_invariant_def new_cleanup_def status_distinct)
  then show ?thesis
    unfolding create_cleanup_report_def snd_conv
    by (rule task_invariant_auto_assign_team)
qed

lemma task_invariant_update_cleanup_status:
  assumes "\<forall>c\<in>set (cleanups st). task_invariant c"
  shows "\<forall>c\<in>set (cleanups (snd (update_cleanup_status now rid s notes photos st))). task_invariant c"
  apply (simp add: update_cleanup_status_def Let_def award_reporter_points_def
      split: option.splits)
  apply (intro conjI impI allI all_set_update assms)
  apply (simp_all add: task_invariant_def status_distinct)
  done

lemma task_invariant_submit_cleanup_verification:
  assumes "\<forall>c\<in>set (cleanups st). task_invariant c"
  shows "\<forall>c\<in>set (cleanups (snd (submit_cleanup_verification now rid email notes photos sc st))). task_invariant c"
proof (cases "find_idx (\<lambda>c. report_id c = rid) (cleanups st)")
  case None
  then show ?thesis using assms by (simp add: submit_cleanup_verification_def)
next
  case (Some ci)
  from find_idx_Some [OF Some] have "cleanups st ! ci \<in> set (cleanups st)" by simp
  with assms have c0: "task_invariant (cleanups st ! ci)" by blast
  show ?thesis
    using Some c0
    apply (simp add: submit_cleanup_verification_def Let_def split: option.splits)
    apply (intro conjI impI allI all_set_update assms)
    apply (simp_all add: task_invariant_def status_distinct)
    done
qed

lemma task_invariant_assign_team:
  assumes "\<forall>c\<in>set (cleanups st). task_invariant c"
  shows "\<forall>c\<in>set (cleanups (snd (assign_team now rid tid st))). task_invariant c"
proof (cases "find_idx (\<lambda>c. report_id c = rid) (cleanups st)")
  case None
  then show ?thesis using assms by (simp add: assign_team_def)
next
  case (Some ci)
  from find_idx_Some [OF Some] have "cleanups st ! ci \<in> set (cleanups st)" by simp
  with assms have c0: "task_invariant (cleanups st ! ci)" by blast
  show ?thesis
    using Some c0
    apply (simp add: assign_team_def Let_def split: option.splits)
    apply (intro conjI impI allI all_set_update assms)
    apply (simp_all add: task_invariant_def status_distinct)
    done
qed

lemma task_invariant_verify_cleanup:
  assumes "\<forall>c\<in>set (cleanups st). task_invariant c"
  shows "\<forall>c\<in>set (cleanups (snd (verify_cleanup now sf an rid email notes uploads st))). task_invariant c"
proof (cases "find_idx (\<lambda>c. report_id c = rid) (cleanups st)")
  case None
  then show ?thesis using assms by (simp add: verify_cleanup_def)
next
  case (Some ci)
  from find_idx_Some [OF Some] have "cleanups st ! ci \<in> set (cleanups st)" by simp
  with assms have c0: "task_invariant (cleanups st ! ci)" by blast
  show ?thesis
  proof (cases "find_idx (\<lambda>t. Some (team_id t) = assigned_team (cleanups st ! ci)) (teams st)")
    case None
    then show ?thesis using Some assms by (simp add: verify_cleanup_def)
  next
    case (Some ti)
    show ?thesis
      using \<open>find_idx (\<lambda>c. report_id c = rid) (cleanups st) = Some ci\<close> Some c0
      apply (simp add: verify_cleanup_def Let_def del: map_is_Nil_conv filter_False)
      apply (intro conjI impI allI all_set_update assms)
      apply (simp_all add: task_invariant_def status_distinct)
      done
  qed
qed


lemma task_invariant_mark_completed:
  assumes "\<forall>c\<in>set (cleanups st). task_invariant c"
  shows "\<forall>c\<in>set (cleanups (snd (mark_completed now rid st))). task_invariant c"
proof (cases "find_idx (\<lambda>c. report_id c = rid) (cleanups st)")
  case None
  then show ?thesis using assms by (simp add: mark_completed_def)
next
  case (Some ci)
  from find_idx_Some [OF Some] have "cleanups st ! ci \<in> set (cleanups st)" by simp
  with assms have c0: "task_invariant (cleanups st ! ci)" by blast
  show ?thesis
  proof (cases "find_idx (\<lambda>t. Some (team_id t) = assigned_team (cleanups st ! ci)) (teams st)")
    case None
    then show ?thesis using Some assms by (simp add: mark_completed_def)
  next
    case (Some ti)
    show ?thesis
      using \<open>find_idx (\<lambda>c. report_id c = rid) (cleanups st) = Some ci\<close> Some c0
      apply (simp add: mark_completed_def Let_def)
      apply (intro conjI impI allI all_set_update assms)
      apply (simp_all add: task_invariant_def status_distinct)
      done
  qed
qed


lemma task_invariant_exec:
  assumes "\<forall>c\<in>set (cleanups st). task_invariant c"
  shows "\<forall>c\<in>set (cleanups (exec x st)). task_invariant c"
proof (cases x)
  case (Create_cleanup_report now rid pr)
  show ?thesis unfolding Create_cleanup_report exec.simps
    by (rule task_invariant_create_cleanup_report [OF assms])
next
  case (Auto_assign_team now rid)
  show ?thesis unfolding Auto_assign_team exec.simps
    by (rule task_invariant_auto_assign_team [OF assms])
next
  case (Create_team now tid nm leader ms)
  then show ?thesis using assms by (simp add: create_team_def)
next
  case (Update_cleanup_status now rid s nts photos)
  show ?thesis unfolding Update_cleanup_status exec.simps
    by (rule task_invariant_update_cleanup_status [OF assms])
next
  case (Submit_cleanup_verification now rid email nts photos sc)
  show ?thesis unfolding Submit_cleanup_verification exec.simps
    by (rule task_invariant_submit_cleanup_verification [OF assms])
next
  case (Assign_team now rid tid)
  show ?thesis unfolding Assign_team exec.simps
    by (rule task_invariant_assign_team [OF assms])
next
  case (Verify_cleanup now sf an rid email nts uploads)
  show ?thesis unfolding Verify_cleanup exec.simps
    by (rule task_invariant_verify_cleanup [OF assms])
next
  case (Mark_completed now rid)
  show ?thesis unfolding Mark_completed exec.simps
    by (rule task_invariant_mark_completed [OF assms])
qed

lemma task_invariant_run:
  "\<forall>c\<in>set (cleanups st). task_invariant c \<Longrightarrow>
   \<forall>c\<in>set (cleanups (run xs st)). task_invariant c"
proof (induction xs arbitrary: st)
  case Nil
  then show ?case by simp
next
  case (Cons x xs)
  from Cons.prems have "\<forall>c\<in>set (cleanups (exec x st)). task_invariant c"
    by (rule task_invariant_exec)
  then show ?case using Cons.IH by simp
qed

text \<open>
  Claim C5, as amended.  After every operation (creation, automatic and manual
  assignment, team creation, status update, verification through the manager or the
  route, manual completion), every task whose status is \<open>cleaned\<close> has its completion
  date set: every operation that writes the status \<open>cleaned\<close> writes the completion
  date with it, and no operation clears a completion date.  The property holds after any
  list of operations once it holds before.  (The converse and the status \<open>verified\<close>
  are not covered: the status update writes any status without touching the completion
  date unless the status is \<open>cleaned\<close>.)
\<close>

theorem cleaned_implies_completion_date:
  assumes "\<forall>c\<in>set (cleanups st). status c = CLEANED \<longrightarrow> completion_date c \<noteq> None"
  shows "\<forall>c\<in>set (cleanups (run ops st)). status c = CLEANED \<longrightarrow> completion_date c \<noteq> None"
  using task_invariant_run [of st ops] assms by (simp add: task_invariant_def)

theorem cleaned_implies_completion_date_witness:
  "status (cleanups (run [Verify_cleanup clock1 id scorer18 ''cleanup_1'' ''ravi@example.org''
                            ''all clear'' [''after.jpg'']] assigned_store) ! 0) = CLEANED \<and>
   completion_date (cleanups (run [Verify_cleanup clock1 id scorer18 ''cleanup_1''
                            ''ravi@example.org'' ''all clear'' [''after.jpg'']] assigned_store) ! 0)
     \<noteq> None"
proof -
  define ops where "ops = [Verify_cleanup clock1 id scorer18 ''cleanup_1'' ''ravi@example.org''
                            ''all clear'' [''after.jpg'']]"
  have h: "\<forall>c\<in>set (cleanups assigned_store). status c = CLEANED \<longrightarrow> completion_date c \<noteq> None"
    by (simp add: assigned_store_eq status_distinct IN_PROGRESS_def[symmetric])
  have ne: "cleanups (run ops assigned_store) \<noteq> []"
    and st: "status (cleanups (run ops assigned_store) ! 0) = CLEANED"
    by (simp_all add: ops_def assigned_store_eq verify_cleanup_def truthy_def Let_def
        avg_score_def scorer18_def)
  from ne have m: "cleanups (run ops assigned_store) ! 0 \<in> set (cleanups (run ops assigned_store))"
    by (cases "cleanups (run ops assigned_store)") simp_all
  from cleaned_implies_completion_date [OF h, of ops] m st
  have "completion_date (cleanups (run ops assigned_store) ! 0) \<noteq> None"
    by blast
  with st show ?thesis unfolding ops_def by (intro conjI)
qed

theorem completion_date_iff_counterexample:
  "status (cleanups (run [Create_cleanup_report clock0 ''cleanup_1'' report82,
                          Update_cleanup_status clock1 ''cleanup_1'' VERIFIED [] None]
                       empty_store) ! 0) = VERIFIED \<and>
   completion_date (cleanups (run [Create_cleanup_report clock0 ''cleanup_1'' report82,
                          Update_cleanup_status clock1 ''cleanup_1'' VERIFIED [] None]
                       empty_store) ! 0) = None \<and>
   status (cleanups (run [Update_cleanup_status clock0 ''cleanup_1'' CLEANED [] None,
                          Update_cleanup_status clock1 ''cleanup_1'' PENDING [] None]
                       assigned_store) ! 0) = PENDING \<and>
   completion_date (cleanups (run [Update_cleanup_status clock0 ''cleanup_1'' CLEANED [] None,
                          Update_cleanup_status clock1 ''cleanup_1'' PENDING [] None]
                       assigned_store) ! 0) = Some (clock0 1)"
  by (simp add: assigned_store_eq unassigned_store_eq [unfolded unassigned_store_def run.simps exec.simps]
      update_cleanup_status_def truthy_def Let_def status_distinct free_up_team_def
      new_cleanup_def award_reporter_points_def)

section \<open>Busy teams and their current task\<close>

lemma map_report_id_update:
  "ci < length cs \<Longrightarrow> report_id c = report_id (cs ! ci) \<Longrightarrow>
     map report_id (cs[ci := c]) = map report_id cs"
  by (simp add: map_update list_update_same_conv)

lemma team_invariant_update_cleanups:
  "ci < length cs \<Longrightarrow> report_id c = report_id (cs ! ci) \<Longrightarrow>
     team_invariant (cs[ci := c]) t = team_invariant cs t"
  unfolding team_invariant_def by (simp only: map_report_id_update)

lemma team_invariant_append_cleanups:
  "team_invariant cs t \<Longrightarrow> team_invariant (cs @ cs') t"
  by (auto simp: team_invariant_def split: option.splits)

lemma find_idx_report_id_mem:
  "find_idx (\<lambda>c. report_id c = rid) cs = Some ci \<Longrightarrow> rid \<in> report_id ` set cs"
  using find_idx_Some [of "\<lambda>c. report_id c = rid" cs ci] by (auto simp: image_iff)

lemma team_invariant_free_up_team:
  assumes "\<forall>t\<in>set ts. team_invariant cs t"
  shows "\<forall>t\<in>set (free_up_team t_act c ts). team_invariant cs t"
  apply (simp add: free_up_team_def split: option.splits)
  apply (intro conjI impI allI all_set_update assms)
  apply (simp_all add: team_invariant_def)
  done

lemma team_invariant_auto_assign_team:
  assumes "\<forall>t\<in>set (teams st). team_invariant (cleanups st) t"
  shows "\<forall>t\<in>set (teams (snd (auto_assign_team now rid st))).
           team_invariant (cleanups (snd (auto_assign_team now rid st))) t"
proof (cases "find_idx (\<lambda>c. report_id c = rid) (cleanups st)")
  case None
  then show ?thesis using assms by (simp add: auto_assign_team_def)
next
  case (Some ci)
  from find_idx_Some [OF Some] have ci: "ci < length (cleanups st)" by simp
  note mem = find_idx_report_id_mem [OF Some]
  show ?thesis
    using Some ci mem
    apply (simp add: auto_assign_team_def Let_def team_invariant_update_cleanups
        split: list.splits)
    apply (intro conjI impI allI all_set_update assms)
    apply (simp_all add: team_invariant_def)
    done
qed

lemma team_invariant_create_cleanup_report:
  assumes "\<forall>t\<in>set (teams st). team_invariant (cleanups st) t"
  shows "\<forall>t\<in>set (teams (snd (create_cleanup_report now rid pr st))).
           team_invariant (cleanups (snd (create_cleanup_report now rid pr st))) t"
proof -
  let ?st = "st\<lparr>cleanups := cleanups st @ [new_cleanup now rid pr]\<rparr>"
  have "\<forall>t\<in>set (teams ?st). team_invariant (cleanups ?st) t"
    using assms by (simp add: team_invariant_append_cleanups)
  then show ?thesis
    unfolding create_cleanup_report_def snd_conv
    by (rule team_invariant_auto_assign_team)
qed

lemma team_invariant_create_team:
  assumes "\<forall>t\<in>set (teams st). team_invariant (cleanups st) t"
  shows "\<forall>t\<in>set (teams (snd (create_team now tid nm leader ms st))).
           team_invariant (cleanups (snd (create_team now tid nm leader ms st))) t"
  using assms by (auto simp: create_team_def new_team_def team_invariant_def)

lemma team_invariant_update_cleanup_status:
  assumes "\<forall>t\<in>set (teams st). team_invariant (cleanups st) t"
  shows "\<forall>t\<in>set (teams (snd (update_cleanup_status now rid s notes photos st))).
           team_invariant (cleanups (snd (update_cleanup_status now rid s notes photos st))) t"
proof (cases "find_idx (\<lambda>c. report_id c = rid) (cleanups st)")
  case None
  then show ?thesis using assms by (simp add: update_cleanup_status_def)
next
  case (Some ci)
  from find_idx_Some [OF Some] have ci: "ci < length (cleanups st)" by simp
  show ?thesis
    using Some ci
    apply (simp add: update_cleanup_status_def Let_def team_invariant_update_cleanups
        award_reporter_points_def split: option.splits)
    apply (intro conjI impI allI team_invariant_free_up_team assms)
    done
qed

lemma team_invariant_submit_cleanup_verification:
  assumes "\<forall>t\<in>set (teams st). team_invariant (cleanups st) t"
  shows "\<forall>t\<in>set (teams (snd (submit_cleanup_verification now rid email notes photos sc st))).
           team_invariant
             (cleanups (snd (submit_cleanup_verification now rid email notes photos sc st))) t"
proof (cases "find_idx (\<lambda>c. report_id c = rid) (cleanups st)")
  case None
  then show ?thesis using assms by (simp add: submit_cleanup_verification_def)
next
  case (Some ci)
  from find_idx_Some [OF Some] have ci: "ci < length (cleanups st)" by simp
  show ?thesis
    using Some ci
    apply (simp add: submit_cleanup_verification_def Let_def team_invariant_update_cleanups
        split: option.splits)
    apply (intro conjI impI allI team_invariant_free_up_team assms)
    done
qed

lemma team_invariant_assign_team:
  assumes "\<forall>t\<in>set (teams st). team_invariant (cleanups st) t"
  shows "\<forall>t\<in>set (teams (snd (assign_team now rid tid st))).
           team_invariant (cleanups (snd (assign_team now rid tid st))) t"
proof (cases "find_idx (\<lambda>c. report_id c = rid) (cleanups st)")
  case None
  then show ?thesis using assms by (simp add: assign_team_def)
next
  case (Some ci)
  from find_idx_Some [OF Some] have ci: "ci < length (cleanups st)" by simp
  note mem = find_idx_report_id_mem [OF Some]
  show ?thesis
    using Some ci mem
    apply (simp add: assign_team_def Let_def team_invariant_update_cleanups
        split: option.splits)
    apply (intro conjI impI allI all_set_update assms)
    apply (simp_all add: team_invariant_def)
    done
qed

lemma team_invariant_verify_cleanup:
  assumes "\<forall>t\<in>set (teams st). team_invariant (cleanups st) t"
  shows "\<forall>t\<in>set (teams (snd (verify_cleanup now sf an rid email notes uploads st))).
           team_invariant (cleanups (snd (verify_cleanup now sf an rid email notes uploads st))) t"
proof (cases "find_idx (\<lambda>c. report_id c = rid) (cleanups st)")
  case None
  then show ?thesis using assms by (simp add: verify_cleanup_def)
next
  case (Some ci)
  from find_idx_Some [OF Some] have ci: "ci < length (cleanups st)" by simp
  note mem = find_idx_report_id_mem [OF Some]
  show ?thesis
  proof (cases "find_idx (\<lambda>t. Some (team_id t) = assigned_team (cleanups st ! ci)) (teams st)")
    case None
    then show ?thesis using Some assms by (simp add: verify_cleanup_def)
  next
    case (Some ti)
    show ?thesis
      using \<open>find_idx (\<lambda>c. report_id c = rid) (cleanups st) = Some ci\<close> Some ci mem
      apply (simp add: verify_cleanup_def Let_def team_invariant_update_cleanups del: map_is_Nil_conv)
      apply (intro conjI impI allI all_set_update assms)
      apply (simp_all add: team_invariant_def)
      done
  qed
qed

lemma team_invariant_mark_completed:
  assumes "\<forall>t\<in>set (teams st). team_invariant (cleanups st) t"
  shows "\<forall>t\<in>set (teams (snd (mark_completed now rid st))).
           team_invariant (cleanups (snd (mark_completed now rid st))) t"
proof (cases "find_idx (\<lambda>c. report_id c = rid) (cleanups st)")
  case None
  then show ?thesis using assms by (simp add: mark_completed_def)
next
  case (Some ci)
  from find_idx_Some [OF Some] have ci: "ci < length (cleanups st)" by simp
  note mem = find_idx_report_id_mem [OF Some]
  show ?thesis
  proof (cases "find_idx (\<lambda>t. Some (team_id t) = assigned_team (cleanups st ! ci)) (teams st)")
    case None
    then show ?thesis using Some assms by (simp add: mark_completed_def)
  next
    case (Some ti)
    show ?thesis
      using \<open>find_idx (\<lambda>c. report_id c = rid) (cleanups st) = Some ci\<close> Some ci mem
      apply (simp add: mark_completed_def Let_def team_invariant_update_cleanups)
      apply (intro conjI impI allI all_set_update assms)
      apply (simp_all add: team_invariant_def)
      done
  qed
qed

lemma team_invariant_exec:
  assumes "\<forall>t\<in>set (teams st). team_invariant (cleanups st) t"
  shows "\<forall>t\<in>set (teams (exec x st)). team_invariant (cleanups (exec x st)) t"
proof (cases x)
  case (Create_cleanup_report now rid pr)
  show ?thesis unfolding Create_cleanup_report exec.simps
    by (rule team_invariant_create_cleanup_report [OF assms])
next
  case (Auto_assign_team now rid)
  show ?thesis unfolding Auto_assign_team exec.simps
    by (rule team_invariant_auto_assign_team [OF assms])
next
  case (Create_team now tid nm leader ms)
  show ?thesis unfolding Create_team exec.simps
    by (rule team_invariant_create_team [OF assms])
next
  case (Update_cleanup_status now rid s nts photos)
  show ?thesis unfolding Update_cleanup_status exec.simps
    by (rule team_invariant_update_cleanup_status [OF assms])
next
  case (Submit_cleanup_verification now rid email nts photos sc)
  show ?thesis unfolding Submit_cleanup_verification exec.simps
    by (rule team_invariant_submit_cleanup_verification [OF assms])
next
  case (Assign_team now rid tid)
  show ?thesis unfolding Assign_team exec.simps
    by (rule team_invariant_assign_team [OF assms])
next
  case (Verify_cleanup now sf an rid email nts uploads)
  show ?thesis unfolding Verify_cleanup exec.simps
    by (rule team_invariant_verify_cleanup [OF assms])
next
  case (Mark_completed now rid)
  show ?thesis unfolding Mark_completed exec.simps
    by (rule team_invariant_mark_completed [OF assms])
qed

lemma team_invariant_run:
  "\<forall>t\<in>set (teams st). team_invariant (cleanups st) t \<Longrightarrow>
   \<forall>t\<in>set (teams (run xs st)). team_invariant (cleanups (run xs st)) t"
proof (induction xs arbitrary: st)
  case Nil
  then show ?case by simp
next
  case (Cons x xs)
  from Cons.prems have "\<forall>t\<in>set (teams (exec x st)). team_invariant (cleanups (exec x st)) t"
    by (rule team_invariant_exec)
  then show ?case using Cons.IH by simp
qed


lemma team_invariant_iff:
  "team_invariant cs t \<longleftrightarrow>
     (team_status t = ''busy'') = (current_task t \<noteq> None) \<and>
     (\<forall>rid. current_task t = Some rid \<longrightarrow> (\<exists>c\<in>set cs. report_id c = rid))"
  by (auto simp: team_invariant_def image_iff split: option.splits)

text \<open>
  Claim C6, as amended.  After every operation, a team has status \<open>busy\<close> exactly when
  its current task is set, and a current task that is set is the identifier of a stored
  task: assignments write \<open>busy\<close> together with the task's identifier, releases write
  \<open>available\<close> together with no task, and no task is ever removed.  The property holds
  after any list of operations once it holds before.  (That the referenced task is
  assigned to this team, to this team only, is not covered: a manual assignment of an
  already assigned task leaves the first team busy with a task that now names the second
  team.)
\<close>

theorem busy_iff_current_task:
  assumes "\<forall>t\<in>set (teams st).
             (team_status t = ''busy'') = (current_task t \<noteq> None) \<and>
             (\<forall>rid. current_task t = Some rid \<longrightarrow> (\<exists>c\<in>set (cleanups st). report_id c = rid))"
  shows "\<forall>t\<in>set (teams (run ops st)).
           (team_status t = ''busy'') = (current_task t \<noteq> None) \<and>
           (\<forall>rid. current_task t = Some rid \<longrightarrow>
                  (\<exists>c\<in>set (cleanups (run ops st)). report_id c = rid))"
  using team_invariant_run [of st ops] assms unfolding team_invariant_iff .

theorem busy_iff_current_task_witness:
  "team_status (teams assigned_store ! 0) = ''busy'' \<and>
   current_task (teams assigned_store ! 0) = Some ''cleanup_1'' \<and>
   ''cleanup_1'' \<in> report_id ` set (cleanups assigned_store)"
proof -
  have h: "\<forall>t\<in>set (teams empty_store).
      (team_status t = ''busy'') = (current_task t \<noteq> None) \<and>
      (\<forall>rid. current_task t = Some rid \<longrightarrow> (\<exists>c\<in>set (cleanups empty_store). report_id c = rid))"
    by (simp add: empty_store_def)
  have ne: "teams assigned_store \<noteq> []"
    by (simp add: assigned_store_eq)
  then have m: "teams assigned_store ! 0 \<in> set (teams assigned_store)"
    by (cases "teams assigned_store") simp_all
  have c: "current_task (teams assigned_store ! 0) = Some ''cleanup_1''"
    by (simp add: assigned_store_eq)
  from busy_iff_current_task [OF h,
      of "[Create_team clock0 ''team_1'' ''Shore Crew'' ''lead@example.org''
            (Some [''lead@example.org'', ''ravi@example.org'']),
          Create_cleanup_report clock0 ''cleanup_1'' report82]"]
  have inv: "\<forall>t\<in>set (teams assigned_store).
           (team_status t = ''busy'') = (current_task t \<noteq> None) \<and>
           (\<forall>rid. current_task t = Some rid \<longrightarrow>
                  (\<exists>c\<in>set (cleanups assigned_store). report_id c = rid))"
    unfolding assigned_store_def .
  from inv m have t0: "(team_status (teams assigned_store ! 0) = ''busy'')
        = (current_task (teams assigned_store ! 0) \<noteq> None)"
    and r0: "\<forall>rid. current_task (teams assigned_store ! 0) = Some rid \<longrightarrow>
                  (\<exists>c\<in>set (cleanups assigned_store). report_id c = rid)"
    by blast+
  from t0 c have busy: "team_status (teams assigned_store ! 0) = ''busy''" by simp
  from r0 c obtain x where x: "x \<in> set (cleanups assigned_store)"
    and rx: "report_id x = ''cleanup_1''"
    by blast
  from x have "report_id x \<in> report_id ` set (cleanups assigned_store)"
    by (rule imageI)
  then have "''cleanup_1'' \<in> report_id ` set (cleanups assigned_store)"
    unfolding rx .
  with busy c show ?thesis by (intro conjI)
qed

theorem current_task_back_reference_counterexample:
  "team_id (teams reassigned_store ! 0) = ''team_1'' \<and>
   team_status (teams reassigned_store ! 0) = ''busy'' \<and>
   current_task (teams reassigned_store ! 0) = Some ''cleanup_1'' \<and>
   map report_id (cleanups reassigned_store) = [''cleanup_1''] \<and>
   status (cleanups reassigned_store ! 0) = IN_PROGRESS \<and>
   assigned_team (cleanups reassigned_store ! 0) = Some ''team_2'' \<and>
   team_id (teams reassigned_store ! 1) = ''team_2'' \<and>
   current_task (teams reassigned_store ! 1) = Some ''cleanup_1''"
  by (simp add: reassigned_store_def assigned_store_eq create_team_def new_team_def
      assign_team_def truthy_def Let_def IN_PROGRESS_def)
section \<open>Round trips through the storage dictionaries\<close>

text \<open>
  A \<^verbatim>\<open>CleanupReport\<close> is reproduced by \<^verbatim>\<open>from_dict(to_dict(c))\<close>, and so is a
  \<^verbatim>\<open>CleanupTeam\<close> whose member list is what its constructor stores (a true value, or the
  empty list).  A \<^verbatim>\<open>Report\<close> is reproduced except for its timestamp, which
  \<^verbatim>\<open>Report.from_dict\<close> never reads from the dictionary: the constructor sets it from
  the clock.
\<close>

lemma CleanupReport_roundtrip:
  "CleanupReport_from_dict now (CleanupReport_to_dict c) = Inr c"
  by (simp add: CleanupReport_from_dict_def CleanupReport_to_dict_def CleanupReport_init_def
      dict_item_def dict_get_def)

lemma CleanupTeam_roundtrip:
  assumes "py_truthy (ct_members t) \<or> ct_members t = PList []"
  shows "CleanupTeam_from_dict now (CleanupTeam_to_dict t) = Inr t"
  using assms
  by (auto simp: CleanupTeam_from_dict_def CleanupTeam_to_dict_def CleanupTeam_init_def
      dict_item_def dict_get_def)

lemma CleanupTeam_init_members:
  "py_truthy (ct_members (CleanupTeam_init now tid nm leader ms)) \<or>
   ct_members (CleanupTeam_init now tid nm leader ms) = PList []"
  by (simp add: CleanupTeam_init_def)

lemma Report_roundtrip:
  "Report_from_dict now (Report_to_dict r) = r\<lparr>rep_timestamp := PStr (now 0)\<rparr>"
  by (simp add: Report_from_dict_def Report_to_dict_def Report_init_def dict_get_def)

text \<open>
  Claim C9, on a pollution report.  The claim has \<^verbatim>\<open>from_dict(to_dict(r))\<close> reproduce
  every field, timestamps included, for the three stored kinds.  For the report written
  on 2024-05-01 and read back on 2024-05-02, \<^verbatim>\<open>Report.from_dict\<close> returns a report
  whose timestamp is the time of reading, not the stored one.  (The other two kinds are
  reproduced, see \<open>CleanupReport_roundtrip\<close> and \<open>CleanupTeam_roundtrip\<close>.)
\<close>

theorem Report_roundtrip_loses_timestamp:
  "rep_timestamp report82_obj = PStr ''2024-05-01T09:59:00'' \<and>
   rep_timestamp (Report_from_dict clock1 (Report_to_dict report82_obj))
     = PStr ''2024-05-02T18:30:00'' \<and>
   Report_from_dict clock1 (Report_to_dict report82_obj) \<noteq> report82_obj"
proof -
  have a: "rep_timestamp report82_obj = PStr ''2024-05-01T09:59:00''"
    by (simp add: report82_obj_def)
  have b: "rep_timestamp (Report_from_dict clock1 (Report_to_dict report82_obj))
     = PStr ''2024-05-02T18:30:00''"
    by (simp add: Report_roundtrip clock1_vals)
  have "rep_timestamp (Report_from_dict clock1 (Report_to_dict report82_obj))
          \<noteq> rep_timestamp report82_obj"
    unfolding a b by simp
  then have "Report_from_dict clock1 (Report_to_dict report82_obj) \<noteq> report82_obj"
    by auto
  with a b show ?thesis by blast
qed


end
